theory Spec2Isabelle
  imports Main
begin

section \<open>Streaming providers: a shallow embedding\<close>

text \<open>
  The development embeds the two provider files \<^verbatim>\<open>src/api/providers/anthropic.ts\<close>
  and \<^verbatim>\<open>src/api/providers/openai.ts\<close>. The first file holds two versions of the class
  \<^verbatim>\<open>AnthropicHandler\<close>: the one of lines 28-193 (called the handler below) and the one
  of lines 207-388 (called the duplicate variant, with names ending in \<open>_dup\<close>).

  A backend stream is a finite list of chunks that ends naturally; an async generator is
  the list of the events it yields, in order, together with the value it returns. Every
  loop body is a step function from the generator's local variables and one chunk to the
  new local variables and the events yielded while that chunk is handled, so that what
  is yielded \<^emph>\<open>at\<close> a chunk is visible in the model. Token counts are natural numbers and
  JavaScript strings are HOL strings; \<^verbatim>\<open>null\<close> and \<^verbatim>\<open>undefined\<close> are \<open>None\<close>.
\<close>

subsection \<open>JavaScript operators on numbers and strings\<close>

text \<open>\<^verbatim>\<open>n || 0\<close> on a number: the only falsy natural number is 0.\<close>

definition or_zero :: "nat \<Rightarrow> nat" where
  "or_zero n = (if n \<noteq> 0 then n else 0)"

text \<open>\<^verbatim>\<open>x || undefined\<close> on \<^verbatim>\<open>number | null | undefined\<close>: 0 is falsy as well.\<close>

definition or_undefined :: "nat option \<Rightarrow> nat option" where
  "or_undefined x = (case x of None \<Rightarrow> None | Some n \<Rightarrow> if n \<noteq> 0 then Some n else None)"

text \<open>\<^verbatim>\<open>s || ""\<close> on a string: the only falsy string is the empty one.\<close>

definition or_empty :: "string \<Rightarrow> string" where
  "or_empty s = (if s \<noteq> [] then s else [])"

text \<open>The one-character string \<^verbatim>\<open>"\n"\<close>.\<close>

definition newline :: string where
  "newline = [CHR 0x0A]"

subsection \<open>Canonical events (ApiStream)\<close>

record Usage =
  inputTokens :: nat
  outputTokens :: nat
  cacheWriteTokens :: "nat option"
  cacheReadTokens :: "nat option"

datatype event = TextEvent string | UsageEvent Usage

fun is_text :: "event \<Rightarrow> bool" where
  "is_text (TextEvent t) = True"
| "is_text (UsageEvent u) = False"

fun is_usage :: "event \<Rightarrow> bool" where
  "is_usage (TextEvent t) = False"
| "is_usage (UsageEvent u) = True"

text \<open>\<^verbatim>\<open>createUsage()\<close>: the two optional fields are left out.\<close>

definition createUsage :: Usage where
  "createUsage = \<lparr>inputTokens = 0, outputTokens = 0, cacheWriteTokens = None, cacheReadTokens = None\<rparr>"

subsection \<open>Chunks of the block-structured backend\<close>

text \<open>
  The fields follow the SDK's type \<^verbatim>\<open>RawPromptCachingBetaMessageStreamEvent\<close>, the type of
  \<^verbatim>\<open>stream\<close> in both variants: \<^verbatim>\<open>message.usage\<close> and its two token counts are numbers,
  the two cache counts are \<^verbatim>\<open>number | null\<close>, the usage of a \<^verbatim>\<open>message_delta\<close> has a
  number \<^verbatim>\<open>output_tokens\<close>, a text block and a text delta have a string \<^verbatim>\<open>text\<close>. On such
  chunks the optional chaining \<^verbatim>\<open>usage?.\<close> of the handler is a plain field access.
\<close>

record message_usage =
  input_tokens :: nat
  output_tokens :: nat
  cache_creation_input_tokens :: "nat option"
  cache_read_input_tokens :: "nat option"

datatype content_block = TextBlock string | ToolUseBlock string

datatype block_delta = TextDelta string | InputJsonDelta string

datatype chunk =
    MessageStart message_usage
  | MessageDelta nat
  | MessageStop
  | ContentBlockStart nat content_block
  | ContentBlockDelta nat block_delta
  | ContentBlockStop nat

subsection \<open>The handler's decoding loop (anthropic.ts, lines 127-186)\<close>

record decoder_state =
  usage :: Usage
  accumulatedText :: string
  currentBlockText :: string
  isFirstBlock :: bool

definition initial_state :: decoder_state where
  "initial_state = \<lparr>usage = createUsage, accumulatedText = [], currentBlockText = [], isFirstBlock = True\<rparr>"

text \<open>One iteration of \<^verbatim>\<open>for await (const chunk of stream)\<close>: the \<^verbatim>\<open>switch (chunk.type)\<close>.\<close>

fun on_chunk :: "decoder_state \<Rightarrow> chunk \<Rightarrow> decoder_state \<times> event list" where
  "on_chunk s (MessageStart u) =
     (s\<lparr>usage := \<lparr>inputTokens = or_zero (input_tokens u),
                  outputTokens = or_zero (output_tokens u),
                  cacheWriteTokens = or_undefined (cache_creation_input_tokens u),
                  cacheReadTokens = or_undefined (cache_read_input_tokens u)\<rparr>\<rparr>, [])"
| "on_chunk s (MessageDelta n) =
     (if n \<noteq> 0 then s\<lparr>usage := (usage s)\<lparr>outputTokens := outputTokens (usage s) + n\<rparr>\<rparr> else s, [])"
| "on_chunk s MessageStop =
     (s, if accumulatedText s \<noteq> [] then [TextEvent (accumulatedText s)] else [])"
| "on_chunk s (ContentBlockStart i (TextBlock t)) =
     (s\<lparr>accumulatedText := (if \<not> isFirstBlock s then accumulatedText s @ newline else accumulatedText s),
        currentBlockText := or_empty t,
        isFirstBlock := False\<rparr>, [])"
| "on_chunk s (ContentBlockStart i (ToolUseBlock j)) = (s, [])"
| "on_chunk s (ContentBlockDelta i (TextDelta t)) =
     (s\<lparr>currentBlockText := currentBlockText s @ t\<rparr>, [])"
| "on_chunk s (ContentBlockDelta i (InputJsonDelta j)) = (s, [])"
| "on_chunk s (ContentBlockStop i) =
     (s\<lparr>accumulatedText := accumulatedText s @ currentBlockText s, currentBlockText := []\<rparr>, [])"

text \<open>The whole loop: the final local variables and everything yielded on the way.\<close>

fun decode_loop :: "decoder_state \<Rightarrow> chunk list \<Rightarrow> decoder_state \<times> event list" where
  "decode_loop s [] = (s, [])"
| "decode_loop s (c # cs) =
     (case on_chunk s c of (s', out) \<Rightarrow>
        (case decode_loop s' cs of (s'', rest) \<Rightarrow> (s'', out @ rest)))"

text \<open>The \<^verbatim>\<open>yield\<close> after the loop (lines 180-186).\<close>

definition final_usage_event :: "decoder_state \<Rightarrow> event" where
  "final_usage_event s =
     UsageEvent \<lparr>inputTokens = inputTokens (usage s),
                 outputTokens = outputTokens (usage s),
                 cacheWriteTokens = or_undefined (cacheWriteTokens (usage s)),
                 cacheReadTokens = or_undefined (cacheReadTokens (usage s))\<rparr>"

definition decode :: "chunk list \<Rightarrow> event list" where
  "decode cs = (case decode_loop initial_state cs of (s, out) \<Rightarrow> out @ [final_usage_event s])"

subsection \<open>The duplicate variant's decoding loop (anthropic.ts, lines 309-374)\<close>

record decoder_state_dup =
  usageData :: Usage
  fullText :: string

definition initial_state_dup :: decoder_state_dup where
  "initial_state_dup =
     \<lparr>usageData = \<lparr>inputTokens = 0, outputTokens = 0, cacheWriteTokens = None, cacheReadTokens = None\<rparr>,
      fullText = []\<rparr>"

fun on_chunk_dup :: "decoder_state_dup \<Rightarrow> chunk \<Rightarrow> decoder_state_dup \<times> event list" where
  "on_chunk_dup s (MessageStart msgUsage) =
     (let u = \<lparr>inputTokens = or_zero (input_tokens msgUsage),
               outputTokens = or_zero (output_tokens msgUsage),
               cacheWriteTokens = or_undefined (cache_creation_input_tokens msgUsage),
               cacheReadTokens = or_undefined (cache_read_input_tokens msgUsage)\<rparr>
      in (s\<lparr>usageData := u\<rparr>, [UsageEvent u]))"
| "on_chunk_dup s (MessageDelta n) =
     (s\<lparr>usageData := (usageData s)\<lparr>outputTokens := or_zero n\<rparr>\<rparr>, [])"
| "on_chunk_dup s MessageStop = (s, [])"
| "on_chunk_dup s (ContentBlockStart i (TextBlock t)) =
     (if i > 0
      then (s\<lparr>fullText := (fullText s @ newline) @ t\<rparr>, [TextEvent newline, TextEvent t])
      else (s\<lparr>fullText := fullText s @ t\<rparr>, [TextEvent t]))"
| "on_chunk_dup s (ContentBlockStart i (ToolUseBlock j)) = (s, [])"
| "on_chunk_dup s (ContentBlockDelta i (TextDelta t)) =
     (s\<lparr>fullText := fullText s @ t\<rparr>, [TextEvent t])"
| "on_chunk_dup s (ContentBlockDelta i (InputJsonDelta j)) = (s, [])"
| "on_chunk_dup s (ContentBlockStop i) = (s, [])"

fun decode_loop_dup :: "decoder_state_dup \<Rightarrow> chunk list \<Rightarrow> decoder_state_dup \<times> event list" where
  "decode_loop_dup s [] = (s, [])"
| "decode_loop_dup s (c # cs) =
     (case on_chunk_dup s c of (s', out) \<Rightarrow>
        (case decode_loop_dup s' cs of (s'', rest) \<Rightarrow> (s'', out @ rest)))"

text \<open>
  The duplicate variant ends with \<^verbatim>\<open>return {inputs, outputs: {content: fullText, usage:
  usageData}}\<close>: the final state is the generator's return value and is not yielded.
\<close>

definition decode_dup :: "chunk list \<Rightarrow> event list" where
  "decode_dup cs = snd (decode_loop_dup initial_state_dup cs)"

definition decode_dup_return :: "chunk list \<Rightarrow> decoder_state_dup" where
  "decode_dup_return cs = fst (decode_loop_dup initial_state_dup cs)"

subsection \<open>The OpenAI handler's decoding loop (openai.ts, lines 64-79)\<close>

record completion_usage =
  prompt_tokens :: nat
  completion_tokens :: nat

text \<open>
  \<^verbatim>\<open>delta.content\<close> is \<^verbatim>\<open>string | null | undefined\<close>; \<^verbatim>\<open>chunk.usage\<close> may be absent, and
  the list of choices may be empty.
\<close>

record openai_delta =
  delta_content :: "string option"

record openai_choice =
  delta :: openai_delta

record openai_chunk =
  choices :: "openai_choice list"
  chunk_usage :: "completion_usage option"

text \<open>\<^verbatim>\<open>chunk.choices[0]?.delta\<close>: undefined when the list of choices is empty.\<close>

definition first_delta :: "openai_chunk \<Rightarrow> openai_delta option" where
  "first_delta c = (case choices c of [] \<Rightarrow> None | ch # rest \<Rightarrow> Some (delta ch))"

text \<open>\<^verbatim>\<open>delta?.content\<close>.\<close>

definition first_content :: "openai_chunk \<Rightarrow> string option" where
  "first_content c = (case first_delta c of None \<Rightarrow> None | Some d \<Rightarrow> delta_content d)"

definition on_chunk_openai :: "openai_chunk \<Rightarrow> event list" where
  "on_chunk_openai c =
     (case first_content c of
        None \<Rightarrow> []
      | Some t \<Rightarrow> if t \<noteq> [] then [TextEvent t] else [])
     @ (case chunk_usage c of
          None \<Rightarrow> []
        | Some u \<Rightarrow> [UsageEvent \<lparr>inputTokens = or_zero (prompt_tokens u),
                                  outputTokens = or_zero (completion_tokens u),
                                  cacheWriteTokens = None,
                                  cacheReadTokens = None\<rparr>])"

fun decode_openai :: "openai_chunk list \<Rightarrow> event list" where
  "decode_openai [] = []"
| "decode_openai (c # cs) = on_chunk_openai c @ decode_openai cs"

subsection \<open>Conversations (Anthropic.Messages.MessageParam)\<close>

datatype role = User | Assistant

datatype cache_directive = Ephemeral

text \<open>The kinds of content part; what a part carries besides its kind is passed through.\<close>

datatype part_body = TextParam string | ImageParam string | ToolUseParam string | ToolResultParam string

record content_part =
  body :: part_body
  cache_control :: "cache_directive option"

text \<open>\<^verbatim>\<open>message.content\<close> is either a string or a list of parts.\<close>

datatype message_content = StringContent string | PartsContent "content_part list"

record message =
  role :: role
  content :: message_content

subsection \<open>Options and the model table\<close>

text \<open>The fields of \<^verbatim>\<open>ApiHandlerOptions\<close> that the two files read for a request.\<close>

record api_options =
  apiModelId :: "string option"
  openAiModelId :: "string option"
  includeStreamOptions :: "bool option"

record model_info =
  maxTokens :: "int option"
  supportsPromptCache :: bool

text \<open>
  \<^verbatim>\<open>anthropicModels\<close>, \<^verbatim>\<open>anthropicDefaultModelId\<close> and \<^verbatim>\<open>openAiModelInfoSaneDefaults\<close>
  are imported from \<^verbatim>\<open>../../shared/api\<close>, which is not among the sources: they are
  parameters of the model. The table is given by its own keys.
\<close>

record shared_api =
  anthropicModels :: "string \<rightharpoonup> model_info"
  anthropicDefaultModelId :: string
  openAiModelInfoSaneDefaults :: model_info

text \<open>
  \<^verbatim>\<open>anthropicModels\<close> is an object, and the two operations of \<^verbatim>\<open>getModel\<close> on it are those
  of the language: \<^verbatim>\<open>key in obj\<close> holds for the object's own keys and for the names it
  inherits from \<^verbatim>\<open>Object.prototype\<close>, and \<^verbatim>\<open>obj[key]\<close> reads an own value, an inherited
  member, or \<^verbatim>\<open>undefined\<close>.
\<close>

definition object_prototype_keys :: "string list" where
  "object_prototype_keys =
     [''constructor'', ''__defineGetter__'', ''__defineSetter__'', ''hasOwnProperty'',
      ''__lookupGetter__'', ''__lookupSetter__'', ''isPrototypeOf'', ''propertyIsEnumerable'',
      ''toString'', ''valueOf'', ''__proto__'', ''toLocaleString'']"

datatype 'v property = OwnValue 'v | PrototypeMember string | Undefined

definition js_in :: "string \<Rightarrow> (string \<rightharpoonup> 'v) \<Rightarrow> bool" where
  "js_in key obj =
     ((case obj key of None \<Rightarrow> False | Some v \<Rightarrow> True) \<or> key \<in> set object_prototype_keys)"

definition js_get :: "(string \<rightharpoonup> 'v) \<Rightarrow> string \<Rightarrow> 'v property" where
  "js_get obj key =
     (case obj key of
        Some v \<Rightarrow> OwnValue v
      | None \<Rightarrow> if key \<in> set object_prototype_keys then PrototypeMember key else Undefined)"

subsection \<open>getModel\<close>

record anthropic_model =
  model_id :: string
  info :: "model_info property"

text \<open>
  \<^verbatim>\<open>AnthropicHandler.getModel\<close> (lines 44-54, and the same text at lines 380-387).
  \<^verbatim>\<open>modelId && ...\<close>: an absent and an empty id are both falsy.
\<close>

definition getModel :: "shared_api \<Rightarrow> api_options \<Rightarrow> anthropic_model" where
  "getModel api opts =
     (case apiModelId opts of
        Some modelId \<Rightarrow>
          if modelId \<noteq> [] \<and> js_in modelId (anthropicModels api)
          then \<lparr>model_id = modelId, info = js_get (anthropicModels api) modelId\<rparr>
          else \<lparr>model_id = anthropicDefaultModelId api,
                info = js_get (anthropicModels api) (anthropicDefaultModelId api)\<rparr>
      | None \<Rightarrow> \<lparr>model_id = anthropicDefaultModelId api,
                  info = js_get (anthropicModels api) (anthropicDefaultModelId api)\<rparr>)"

record openai_model =
  openai_model_id :: string
  openai_info :: model_info

text \<open>\<^verbatim>\<open>OpenAiHandler.getModel\<close> (openai.ts, lines 85-90).\<close>

definition getModel_openai :: "shared_api \<Rightarrow> api_options \<Rightarrow> openai_model" where
  "getModel_openai api opts =
     \<lparr>openai_model_id = (case openAiModelId opts of Some m \<Rightarrow> m | None \<Rightarrow> []),
      openai_info = openAiModelInfoSaneDefaults api\<rparr>"

subsection \<open>Errors\<close>

text \<open>Reading a property of \<^verbatim>\<open>undefined\<close> throws a \<^verbatim>\<open>TypeError\<close>.\<close>

datatype error = TypeError

text \<open>\<^verbatim>\<open>info.maxTokens\<close>: a member of \<^verbatim>\<open>Object.prototype\<close> has no such property.\<close>

definition info_maxTokens :: "model_info property \<Rightarrow> error + int option" where
  "info_maxTokens p =
     (case p of
        OwnValue i \<Rightarrow> Inr (maxTokens i)
      | PrototypeMember k \<Rightarrow> Inr None
      | Undefined \<Rightarrow> Inl TypeError)"

text \<open>\<^verbatim>\<open>maxTokens || 8192\<close>: an absent limit and the limit 0 are both falsy.\<close>

definition or_8192 :: "int option \<Rightarrow> int" where
  "or_8192 m = (case m of None \<Rightarrow> 8192 | Some n \<Rightarrow> if n \<noteq> 0 then n else 8192)"

subsection \<open>Cache breakpoints (lines 72-105, and the same text at lines 244-277)\<close>

text \<open>\<^verbatim>\<open>xs[i]\<close> on an array: \<^verbatim>\<open>undefined\<close> outside the array, also at a negative index.\<close>

definition js_index :: "'a list \<Rightarrow> int \<Rightarrow> 'a option" where
  "js_index xs i = (if 0 \<le> i \<and> i < int (length xs) then Some (xs ! nat i) else None)"

definition userMsgIndices :: "message list \<Rightarrow> nat list" where
  "userMsgIndices messages =
     fold (\<lambda>(index, msg) acc. if role msg = User then acc @ [index] else acc)
          (enumerate 0 messages) []"

text \<open>\<^verbatim>\<open>userMsgIndices[userMsgIndices.length - 1] ?? -1\<close>.\<close>

definition lastUserMsgIndex :: "message list \<Rightarrow> int" where
  "lastUserMsgIndex messages =
     (case js_index (userMsgIndices messages) (int (length (userMsgIndices messages)) - 1) of
        Some i \<Rightarrow> int i
      | None \<Rightarrow> - 1)"

definition secondLastMsgUserIndex :: "message list \<Rightarrow> int" where
  "secondLastMsgUserIndex messages =
     (case js_index (userMsgIndices messages) (int (length (userMsgIndices messages)) - 2) of
        Some i \<Rightarrow> int i
      | None \<Rightarrow> - 1)"

text \<open>The body of the outer \<^verbatim>\<open>map\<close> for a selected message (lines 86-102).\<close>

definition with_cache_control :: "message \<Rightarrow> message" where
  "with_cache_control message =
     message\<lparr>content :=
       (case content message of
          StringContent text \<Rightarrow>
            PartsContent [\<lparr>body = TextParam text, cache_control = Some Ephemeral\<rparr>]
        | PartsContent parts \<Rightarrow>
            PartsContent
              (map (\<lambda>(contentIndex, c).
                      if int contentIndex = int (length parts) - 1
                      then c\<lparr>cache_control := Some Ephemeral\<rparr>
                      else c)
                   (enumerate 0 parts)))\<rparr>"

definition cached_messages :: "message list \<Rightarrow> message list" where
  "cached_messages messages =
     map (\<lambda>(index, message).
            if int index = lastUserMsgIndex messages \<or> int index = secondLastMsgUserIndex messages
            then with_cache_control message
            else message)
         (enumerate 0 messages)"

text \<open>The model ids of the first branch of \<^verbatim>\<open>switch (modelId)\<close>.\<close>

definition cache_model_ids :: "string list" where
  "cache_model_ids =
     [''claude-3-5-sonnet-20241022'', ''claude-3-5-haiku-20241022'',
      ''claude-3-opus-20240229'', ''claude-3-haiku-20240307'']"

subsection \<open>Wire requests\<close>

datatype endpoint = PromptCachingMessages | Messages

datatype system_param = SystemString string | SystemParts "content_part list"

record anthropic_request =
  endpoint :: endpoint
  model :: string
  max_tokens :: int
  temperature :: nat
  system :: system_param
  messages :: "message list"
  stream :: bool
  headers :: "(string \<times> string) list option"

text \<open>The request of the handler (lines 64-125).\<close>

definition build_request ::
  "shared_api \<Rightarrow> api_options \<Rightarrow> string \<Rightarrow> message list \<Rightarrow> error + anthropic_request" where
  "build_request api opts systemPrompt msgs =
     (let modelId = model_id (getModel api opts) in
      case info_maxTokens (info (getModel api opts)) of
        Inl e \<Rightarrow> Inl e
      | Inr m \<Rightarrow>
          if modelId \<in> set cache_model_ids
          then Inr \<lparr>endpoint = PromptCachingMessages,
                    model = modelId,
                    max_tokens = or_8192 m,
                    temperature = 0,
                    system = SystemString systemPrompt,
                    messages = cached_messages msgs,
                    stream = True,
                    headers = Some [(''anthropic-beta'', ''prompt-caching-2024-07-31'')]\<rparr>
          else Inr \<lparr>endpoint = Messages,
                    model = modelId,
                    max_tokens = or_8192 m,
                    temperature = 0,
                    system = SystemString systemPrompt,
                    messages = msgs,
                    stream = True,
                    headers = None\<rparr>)"

text \<open>The request of the duplicate variant (lines 229-307).\<close>

definition build_request_dup ::
  "shared_api \<Rightarrow> api_options \<Rightarrow> string \<Rightarrow> message list \<Rightarrow> error + anthropic_request" where
  "build_request_dup api opts systemPrompt msgs =
     (let modelId = model_id (getModel api opts) in
      case info_maxTokens (info (getModel api opts)) of
        Inl e \<Rightarrow> Inl e
      | Inr m \<Rightarrow>
          if modelId \<in> set cache_model_ids
          then Inr \<lparr>endpoint = PromptCachingMessages,
                    model = modelId,
                    max_tokens = or_8192 m,
                    temperature = 0,
                    system = SystemParts [\<lparr>body = TextParam systemPrompt, cache_control = Some Ephemeral\<rparr>],
                    messages = cached_messages msgs,
                    stream = True,
                    headers = (if modelId \<in> set cache_model_ids
                               then Some [(''anthropic-beta'', ''prompt-caching-2024-07-31'')]
                               else None)\<rparr>
          else Inr \<lparr>endpoint = Messages,
                    model = modelId,
                    max_tokens = or_8192 m,
                    temperature = 0,
                    system = SystemParts [\<lparr>body = TextParam systemPrompt, cache_control = None\<rparr>],
                    messages = msgs,
                    stream = True,
                    headers = None\<rparr>)"

text \<open>
  The request of the OpenAI handler (openai.ts, lines 48-61). \<^verbatim>\<open>convertToOpenAiMessages\<close>
  is imported from \<^verbatim>\<open>../transform/openai-format\<close>, which is not among the sources: it is
  the parameter \<open>convert\<close>. The request object is given no token limit, so the optional
  field \<^verbatim>\<open>max_tokens\<close> of \<^verbatim>\<open>ChatCompletionCreateParams\<close> stays absent.
\<close>

datatype 'm openai_message = SystemMessage string | Converted 'm

record 'm openai_request =
  openai_model :: string
  openai_messages :: "'m openai_message list"
  openai_temperature :: nat
  openai_stream :: bool
  openai_max_tokens :: "int option"
  stream_options :: "bool option"

definition build_request_openai ::
  "(message list \<Rightarrow> 'm list) \<Rightarrow> api_options \<Rightarrow> string \<Rightarrow> message list \<Rightarrow> 'm openai_request" where
  "build_request_openai convert opts systemPrompt msgs =
     \<lparr>openai_model = (case openAiModelId opts of Some m \<Rightarrow> m | None \<Rightarrow> []),
      openai_messages = SystemMessage systemPrompt # map Converted (convert msgs),
      openai_temperature = 0,
      openai_stream = True,
      openai_max_tokens = None,
      stream_options =
        (if (case includeStreamOptions opts of Some b \<Rightarrow> b | None \<Rightarrow> True) then Some True else None)\<rparr>"

subsection \<open>createMessage\<close>

text \<open>
  Modelled from the spec: \<^verbatim>\<open>traceableMethod\<close> is imported from \<^verbatim>\<open>../langsmith/config\<close>,
  which is not among the sources. The spec's instrumentation wrapper forwards every
  element of the wrapped sequence to the caller unchanged and in the same order.
\<close>

definition traceableMethod :: "event list \<Rightarrow> event list" where
  "traceableMethod events = events"

text \<open>
  \<^verbatim>\<open>createMessage\<close> builds the request, opens the stream and yields what the traced
  generator yields. \<open>backend\<close> is the transport: the chunks it answers a request with.
\<close>

definition createMessage ::
  "shared_api \<Rightarrow> api_options \<Rightarrow> (anthropic_request \<Rightarrow> chunk list) \<Rightarrow> string \<Rightarrow> message list
     \<Rightarrow> error + event list" where
  "createMessage api opts backend systemPrompt msgs =
     (case build_request api opts systemPrompt msgs of
        Inl e \<Rightarrow> Inl e
      | Inr req \<Rightarrow> Inr (traceableMethod (decode (backend req))))"

definition createMessage_dup ::
  "shared_api \<Rightarrow> api_options \<Rightarrow> (anthropic_request \<Rightarrow> chunk list) \<Rightarrow> string \<Rightarrow> message list
     \<Rightarrow> error + event list" where
  "createMessage_dup api opts backend systemPrompt msgs =
     (case build_request_dup api opts systemPrompt msgs of
        Inl e \<Rightarrow> Inl e
      | Inr req \<Rightarrow> Inr (traceableMethod (decode_dup (backend req))))"

definition createMessage_openai ::
  "(message list \<Rightarrow> 'm list) \<Rightarrow> api_options \<Rightarrow> ('m openai_request \<Rightarrow> openai_chunk list)
     \<Rightarrow> string \<Rightarrow> message list \<Rightarrow> event list" where
  "createMessage_openai convert opts backend systemPrompt msgs =
     traceableMethod (decode_openai (backend (build_request_openai convert opts systemPrompt msgs)))"

section \<open>Notions used to state the properties\<close>

text \<open>The texts of the text events of a sequence, in order.\<close>

fun texts :: "event list \<Rightarrow> string list" where
  "texts [] = []"
| "texts (TextEvent t # es) = t # texts es"
| "texts (UsageEvent u # es) = texts es"

text \<open>
  The number of usage events at or after the last text event: an event is a text or a
  usage event, so these are the events that follow the last text event.
\<close>

definition usage_events_after_last_text :: "event list \<Rightarrow> nat" where
  "usage_events_after_last_text events = length (takeWhile is_usage (rev events))"

text \<open>
  The user turns of a conversation, by index and in order; the selected turns are the
  last two of them (the last one, or none, when there are fewer).
\<close>

definition user_turns :: "message list \<Rightarrow> nat list" where
  "user_turns ms = filter (\<lambda>i. role (ms ! i) = User) [0..<length ms]"

definition selected_turn :: "message list \<Rightarrow> nat \<Rightarrow> bool" where
  "selected_turn ms i = (i \<in> set (drop (length (user_turns ms) - 2) (user_turns ms)))"

text \<open>The parts of a body, a string body read as one text part without a directive.\<close>

fun as_parts :: "message_content \<Rightarrow> content_part list" where
  "as_parts (StringContent t) = [\<lparr>body = TextParam t, cache_control = None\<rparr>]"
| "as_parts (PartsContent ps) = ps"

text \<open>
  A well-formed stream of one message made of text blocks: the blocks are numbered from
  0 in order, each is opened, extended by deltas and closed before the next one opens,
  and the stream ends with its only \<^verbatim>\<open>message_stop\<close>. \<open>k\<close> is the index of the next block
  and \<open>inb\<close> tells whether a block is open.
\<close>

fun is_text_block :: "content_block \<Rightarrow> bool" where
  "is_text_block (TextBlock t) = True"
| "is_text_block (ToolUseBlock j) = False"

fun well_formed_from :: "nat \<Rightarrow> bool \<Rightarrow> chunk list \<Rightarrow> bool" where
  "well_formed_from k inb [] = False"
| "well_formed_from k inb (MessageStop # cs) = (\<not> inb \<and> cs = [])"
| "well_formed_from k inb (MessageStart u # cs) = well_formed_from k inb cs"
| "well_formed_from k inb (MessageDelta n # cs) = well_formed_from k inb cs"
| "well_formed_from k inb (ContentBlockStart i b # cs) =
     (\<not> inb \<and> i = k \<and> is_text_block b \<and> well_formed_from (Suc k) True cs)"
| "well_formed_from k inb (ContentBlockDelta i d # cs) = (inb \<and> well_formed_from k inb cs)"
| "well_formed_from k inb (ContentBlockStop i # cs) = (inb \<and> well_formed_from k False cs)"

subsection \<open>Concrete inputs\<close>

text \<open>
  A model table with two entries, the second one without a token limit and outside the
  cache branch, and options that name the first entry and the second.
\<close>

definition example_api :: shared_api where
  "example_api =
     \<lparr>anthropicModels =
        [''claude-3-5-sonnet-20241022'' \<mapsto> \<lparr>maxTokens = Some 8192, supportsPromptCache = True\<rparr>,
         ''claude-3-sonnet-20240229'' \<mapsto> \<lparr>maxTokens = None, supportsPromptCache = False\<rparr>],
      anthropicDefaultModelId = ''claude-3-5-sonnet-20241022'',
      openAiModelInfoSaneDefaults = \<lparr>maxTokens = Some (- 1), supportsPromptCache = False\<rparr>\<rparr>"

text \<open>The same first entry with a descriptor that does not claim prompt caching.\<close>

definition unflagged_api :: shared_api where
  "unflagged_api =
     \<lparr>anthropicModels =
        [''claude-3-5-sonnet-20241022'' \<mapsto> \<lparr>maxTokens = Some 8192, supportsPromptCache = False\<rparr>],
      anthropicDefaultModelId = ''claude-3-5-sonnet-20241022'',
      openAiModelInfoSaneDefaults = \<lparr>maxTokens = Some (- 1), supportsPromptCache = False\<rparr>\<rparr>"

definition example_options :: api_options where
  "example_options =
     \<lparr>apiModelId = Some ''claude-3-5-sonnet-20241022'', openAiModelId = Some ''gpt-4o'',
      includeStreamOptions = None\<rparr>"

definition plain_options :: api_options where
  "plain_options =
     \<lparr>apiModelId = Some ''claude-3-sonnet-20240229'', openAiModelId = None,
      includeStreamOptions = None\<rparr>"

definition user_message :: "string \<Rightarrow> message" where
  "user_message t = \<lparr>role = User, content = StringContent t\<rparr>"

definition assistant_message :: "string \<Rightarrow> message" where
  "assistant_message t = \<lparr>role = Assistant, content = StringContent t\<rparr>"

text \<open>The conversation of the spec's example: \<^verbatim>\<open>[user:"a", assistant:"b", user:"c"]\<close>.\<close>

definition example_turns :: "message list" where
  "example_turns = [user_message ''a'', assistant_message ''b'', user_message ''c'']"

definition text_chunk :: "string \<Rightarrow> openai_chunk" where
  "text_chunk t = \<lparr>choices = [\<lparr>delta = \<lparr>delta_content = Some t\<rparr>\<rparr>], chunk_usage = None\<rparr>"

definition usage_chunk :: "nat \<Rightarrow> nat \<Rightarrow> openai_chunk" where
  "usage_chunk i out =
     \<lparr>choices = [], chunk_usage = Some \<lparr>prompt_tokens = i, completion_tokens = out\<rparr>\<rparr>"

text \<open>Scenario A of the spec.\<close>

definition scenario_A :: "openai_chunk list" where
  "scenario_A = [text_chunk ''Hel'', text_chunk ''lo'', usage_chunk 10 2]"

definition start_usage :: "nat \<Rightarrow> nat \<Rightarrow> message_usage" where
  "start_usage i out =
     \<lparr>input_tokens = i, output_tokens = out,
      cache_creation_input_tokens = None, cache_read_input_tokens = None\<rparr>"

text \<open>Scenario B of the spec, its last chunk read as \<^verbatim>\<open>message_stop\<close>.\<close>

definition scenario_B :: "chunk list" where
  "scenario_B =
     [MessageStart (start_usage 5 0),
      ContentBlockStart 0 (TextBlock ''A''), ContentBlockStop 0,
      ContentBlockStart 1 (TextBlock ''B''), ContentBlockDelta 1 (TextDelta ''!''),
      MessageStop]"

text \<open>A complete answer in one text block, as the backend streams it.\<close>

definition hello_stream :: "chunk list" where
  "hello_stream =
     [MessageStart (start_usage 5 1),
      ContentBlockStart 0 (TextBlock []),
      ContentBlockDelta 0 (TextDelta ''Hel''), ContentBlockDelta 0 (TextDelta ''lo''),
      ContentBlockStop 0,
      MessageDelta 7,
      MessageStop]"

text \<open>Two text blocks, both closed.\<close>

definition two_blocks :: "chunk list" where
  "two_blocks =
     [ContentBlockStart 0 (TextBlock ''A''), ContentBlockStop 0,
      ContentBlockStart 1 (TextBlock ''B''), ContentBlockStop 1,
      MessageStop]"

text \<open>A transport that answers every request with the same chunks.\<close>

definition answer_with :: "'c list \<Rightarrow> 'r \<Rightarrow> 'c list" where
  "answer_with cs req = cs"

section \<open>Auxiliary facts\<close>

lemma or_zero_id: "or_zero n = n"
  by (simp add: or_zero_def)

lemma or_empty_id: "or_empty s = s"
  by (simp add: or_empty_def)

lemma or_undefined_not_zero: "or_undefined x \<noteq> Some 0"
  by (simp add: or_undefined_def split: option.splits)

lemma or_undefined_zero: "or_undefined (Some 0) = None"
  by (simp add: or_undefined_def)

lemma texts_append: "texts (xs @ ys) = texts xs @ texts ys"
  by (induction xs rule: texts.induct) auto

subsection \<open>The decoding loops\<close>

lemma decode_loop_Cons:
  "snd (decode_loop s (c # cs)) = snd (on_chunk s c) @ snd (decode_loop (fst (on_chunk s c)) cs)"
  by (simp split: prod.splits)

lemma decode_loop_dup_Cons:
  "snd (decode_loop_dup s (c # cs))
     = snd (on_chunk_dup s c) @ snd (decode_loop_dup (fst (on_chunk_dup s c)) cs)"
  by (simp split: prod.splits)

lemma on_chunk_texts: "list_all is_text (snd (on_chunk s c))"
  by (cases "(s, c)" rule: on_chunk.cases) auto

lemma decode_loop_texts: "list_all is_text (snd (decode_loop s cs))"
proof (induction cs arbitrary: s)
  case Nil
  show ?case by simp
next
  case (Cons c cs)
  show ?case
    unfolding decode_loop_Cons using on_chunk_texts [of s c] Cons.IH by simp
qed

lemma decode_shape:
  "decode cs = snd (decode_loop initial_state cs)
                 @ [final_usage_event (fst (decode_loop initial_state cs))]"
  by (simp add: decode_def split: prod.splits)

lemma texts_decode: "texts (decode cs) = texts (snd (decode_loop initial_state cs))"
  by (simp add: decode_shape texts_append final_usage_event_def)

lemma trailing_usage_snoc:
  "list_all is_text txts \<Longrightarrow> usage_events_after_last_text (txts @ [UsageEvent u]) = 1"
proof -
  assume "list_all is_text txts"
  then have "takeWhile is_usage (rev txts) = []"
    by (cases txts rule: rev_cases) (auto elim: is_text.elims)
  then show ?thesis by (simp add: usage_events_after_last_text_def)
qed

lemma filter_usage_texts: "list_all is_text txts \<Longrightarrow> filter is_usage txts = []"
  by (induction txts) (auto elim: is_text.elims)

subsection \<open>The OpenAI loop\<close>

lemma decode_openai_append: "decode_openai (xs @ ys) = decode_openai xs @ decode_openai ys"
  by (induction xs) auto

lemma decode_openai_usage_count:
  "length (filter is_usage (decode_openai cs)) = length (filter (\<lambda>c. chunk_usage c \<noteq> None) cs)"
  by (induction cs) (auto simp: on_chunk_openai_def split: option.splits)

lemma decode_openai_no_usage:
  "list_all (\<lambda>c. chunk_usage c = None) cs \<Longrightarrow> list_all is_text (decode_openai cs)"
  by (induction cs) (auto simp: on_chunk_openai_def split: option.splits)

subsection \<open>Selection of the cached turns\<close>

lemma fold_user_indices:
  "fold (\<lambda>(index, msg) acc. if role msg = User then acc @ [index] else acc) (enumerate n xs) acc
     = acc @ filter (\<lambda>i. role (xs ! (i - n)) = User) [n..<n + length xs]"
proof (induction xs arbitrary: n acc)
  case Nil
  show ?case by simp
next
  case (Cons x xs)
  have shift: "filter (\<lambda>i. role ((x # xs) ! (i - n)) = User) [Suc n..<Suc n + length xs]
                 = filter (\<lambda>i. role (xs ! (i - Suc n)) = User) [Suc n..<Suc n + length xs]"
  proof (rule filter_cong)
    fix i assume "i \<in> set [Suc n..<Suc n + length xs]"
    then have "i - n = Suc (i - Suc n)" by auto
    then show "(role ((x # xs) ! (i - n)) = User) = (role (xs ! (i - Suc n)) = User)" by simp
  qed simp
  have upt: "[n..<n + length (x # xs)] = n # [Suc n..<Suc n + length xs]"
    using upt_conv_Cons [of n "n + length (x # xs)"] by simp
  show ?case
    unfolding upt using Cons.IH [of "Suc n"] shift by simp
qed

lemma userMsgIndices_user_turns: "userMsgIndices ms = user_turns ms"
  unfolding userMsgIndices_def user_turns_def using fold_user_indices [of 0 ms "[]"] by simp

lemma selected_iff:
  "(int i = lastUserMsgIndex ms \<or> int i = secondLastMsgUserIndex ms) = selected_turn ms i"
proof -
  let ?us = "user_turns ms"
  consider (zero) "length ?us = 0" | (one) "length ?us = 1" | (more) "2 \<le> length ?us" by linarith
  then show ?thesis
  proof cases
    case zero
    then show ?thesis
      by (simp add: lastUserMsgIndex_def secondLastMsgUserIndex_def selected_turn_def
          userMsgIndices_user_turns js_index_def)
  next
    case one
    then obtain a where a: "?us = [a]" by (cases ?us) auto
    then show ?thesis
      by (auto simp add: lastUserMsgIndex_def secondLastMsgUserIndex_def selected_turn_def
          userMsgIndices_user_turns js_index_def)
  next
    case more
    define n where "n = length ?us"
    have n2: "2 \<le> n" using more n_def by simp
    have ne: "?us \<noteq> []" using more by auto
    have l: "lastUserMsgIndex ms = int (?us ! (n - 1))"
      using n2 ne
      by (simp add: lastUserMsgIndex_def userMsgIndices_user_turns js_index_def n_def nat_diff_distrib')
    have s: "secondLastMsgUserIndex ms = int (?us ! (n - 2))"
      using n2
      by (simp add: secondLastMsgUserIndex_def userMsgIndices_user_turns js_index_def n_def
          nat_diff_distrib')
    have "selected_turn ms i = (\<exists>k. n - 2 \<le> k \<and> k < n \<and> ?us ! k = i)"
    proof
      assume "selected_turn ms i"
      then obtain j where j: "j < length (drop (n - 2) ?us)" "drop (n - 2) ?us ! j = i"
        by (auto simp: selected_turn_def in_set_conv_nth n_def)
      then have "n - 2 \<le> n - 2 + j \<and> n - 2 + j < n \<and> ?us ! (n - 2 + j) = i"
        using n2 by (auto simp: n_def)
      then show "\<exists>k. n - 2 \<le> k \<and> k < n \<and> ?us ! k = i" by blast
    next
      assume "\<exists>k. n - 2 \<le> k \<and> k < n \<and> ?us ! k = i"
      then obtain k where k: "n - 2 \<le> k" "k < n" "?us ! k = i" by blast
      then have "k - (n - 2) < length (drop (n - 2) ?us)" "drop (n - 2) ?us ! (k - (n - 2)) = i"
        by (auto simp: n_def)
      then show "selected_turn ms i"
        unfolding selected_turn_def n_def [symmetric] in_set_conv_nth by blast
    qed
    also have "\<dots> = (?us ! (n - 2) = i \<or> ?us ! (n - 1) = i)"
    proof
      assume "\<exists>k. n - 2 \<le> k \<and> k < n \<and> ?us ! k = i"
      then obtain k where k: "n - 2 \<le> k" "k < n" "?us ! k = i" by blast
      then have "k = n - 2 \<or> k = n - 1" by linarith
      with k show "?us ! (n - 2) = i \<or> ?us ! (n - 1) = i" by blast
    next
      assume "?us ! (n - 2) = i \<or> ?us ! (n - 1) = i"
      then show "\<exists>k. n - 2 \<le> k \<and> k < n \<and> ?us ! k = i"
      proof
        assume "?us ! (n - 2) = i"
        moreover have "n - 2 \<le> n - 2 \<and> n - 2 < n" using n2 by simp
        ultimately show ?thesis by blast
      next
        assume "?us ! (n - 1) = i"
        moreover have "n - 2 \<le> n - 1 \<and> n - 1 < n" using n2 by simp
        ultimately show ?thesis by blast
      qed
    qed
    finally show ?thesis using l s by auto
  qed
qed

lemma length_cached_messages: "length (cached_messages ms) = length ms"
  by (simp add: cached_messages_def)

lemma cached_messages_nth:
  "i < length ms \<Longrightarrow>
   cached_messages ms ! i = (if selected_turn ms i then with_cache_control (ms ! i) else ms ! i)"
  using selected_iff [of i ms] by (simp add: cached_messages_def nth_enumerate_eq)

lemma role_with_cache_control: "role (with_cache_control m) = role m"
  by (simp add: with_cache_control_def)

lemma content_with_cache_control:
  "\<exists>ps. content (with_cache_control m) = PartsContent ps \<and>
        length ps = length (as_parts (content m)) \<and>
        (\<forall>j<length ps. body (ps ! j) = body (as_parts (content m) ! j) \<and>
           cache_control (ps ! j) =
             (if Suc j = length ps then Some Ephemeral else cache_control (as_parts (content m) ! j)))"
proof (cases "content m")
  case (StringContent t)
  then show ?thesis by (simp add: with_cache_control_def)
next
  case (PartsContent parts)
  then show ?thesis
    by (auto simp add: with_cache_control_def nth_enumerate_eq)
qed

lemma build_request_messages:
  "build_request api opts sp ms = Inr r \<Longrightarrow>
   messages r = (if model r \<in> set cache_model_ids then cached_messages ms else ms)"
  by (auto simp: build_request_def Let_def split: sum.splits if_splits)

lemma build_request_dup_messages:
  "build_request_dup api opts sp ms = Inr r \<Longrightarrow>
   messages r = (if model r \<in> set cache_model_ids then cached_messages ms else ms)"
  by (auto simp: build_request_dup_def Let_def split: sum.splits if_splits)

subsection \<open>Text of a well-formed stream\<close>

lemma buffered_text:
  "well_formed_from k inb cs \<Longrightarrow> isFirstBlock s = (k = 0) \<Longrightarrow> (\<not> inb \<Longrightarrow> currentBlockText s = []) \<Longrightarrow>
   concat (texts (snd (decode_loop s cs)))
     = accumulatedText s @ currentBlockText s @ concat (texts (snd (decode_loop_dup s' cs)))"
proof (induction k inb cs arbitrary: s s' rule: well_formed_from.induct)
  case (1 k inb)
  then show ?case by simp
next
  case (2 k inb cs)
  then show ?case by simp
next
  case (3 k inb u cs)
  let ?s1 = "fst (on_chunk s (MessageStart u))"
  let ?s2 = "fst (on_chunk_dup s' (MessageStart u))"
  have ih: "concat (texts (snd (decode_loop ?s1 cs)))
     = accumulatedText ?s1 @ currentBlockText ?s1 @ concat (texts (snd (decode_loop_dup ?s2 cs)))"
    by (rule "3.IH") (use 3 in auto)
  show ?case
    unfolding decode_loop_Cons decode_loop_dup_Cons texts_append concat_append ih
    by (simp add: Let_def)
next
  case (4 k inb n cs)
  let ?s1 = "fst (on_chunk s (MessageDelta n))"
  let ?s2 = "fst (on_chunk_dup s' (MessageDelta n))"
  have ih: "concat (texts (snd (decode_loop ?s1 cs)))
     = accumulatedText ?s1 @ currentBlockText ?s1 @ concat (texts (snd (decode_loop_dup ?s2 cs)))"
    by (rule "4.IH") (use 4 in auto)
  show ?case
    unfolding decode_loop_Cons decode_loop_dup_Cons texts_append concat_append ih
    by simp
next
  case (5 k inb i b cs)
  then obtain t where b: "b = TextBlock t" by (cases b) auto
  from 5 have ik: "i = k" and cur: "currentBlockText s = []"
    by auto
  let ?s1 = "fst (on_chunk s (ContentBlockStart i b))"
  let ?s2 = "fst (on_chunk_dup s' (ContentBlockStart i b))"
  have ih: "concat (texts (snd (decode_loop ?s1 cs)))
     = accumulatedText ?s1 @ currentBlockText ?s1 @ concat (texts (snd (decode_loop_dup ?s2 cs)))"
    by (rule "5.IH") (use 5 b in auto)
  show ?case
    unfolding decode_loop_Cons decode_loop_dup_Cons texts_append concat_append ih
    using b ik cur "5.prems"(2) by (auto simp: or_empty_id)
next
  case (6 k inb i d cs)
  let ?s1 = "fst (on_chunk s (ContentBlockDelta i d))"
  let ?s2 = "fst (on_chunk_dup s' (ContentBlockDelta i d))"
  have ih: "concat (texts (snd (decode_loop ?s1 cs)))
     = accumulatedText ?s1 @ currentBlockText ?s1 @ concat (texts (snd (decode_loop_dup ?s2 cs)))"
    by (rule "6.IH") (use 6 in \<open>cases d; auto\<close>)+
  show ?case
    unfolding decode_loop_Cons decode_loop_dup_Cons texts_append concat_append ih
    by (cases d) auto
next
  case (7 k inb i cs)
  let ?s1 = "fst (on_chunk s (ContentBlockStop i))"
  let ?s2 = "fst (on_chunk_dup s' (ContentBlockStop i))"
  have ih: "concat (texts (snd (decode_loop ?s1 cs)))
     = accumulatedText ?s1 @ currentBlockText ?s1 @ concat (texts (snd (decode_loop_dup ?s2 cs)))"
    by (rule "7.IH") (use 7 in auto)
  show ?case
    unfolding decode_loop_Cons decode_loop_dup_Cons texts_append concat_append ih
    by auto
qed

lemma same_text:
  "well_formed_from 0 False cs \<Longrightarrow> concat (texts (decode cs)) = concat (texts (decode_dup cs))"
  using buffered_text [of 0 False cs initial_state initial_state_dup]
  by (simp add: texts_decode decode_dup_def initial_state_def)

subsection \<open>Cache counts\<close>

lemma decode_loop_swap:
  "(\<And>s. on_chunk s c = on_chunk s c') \<Longrightarrow>
   decode_loop s (pre @ c # post) = decode_loop s (pre @ c' # post)"
  by (induction pre arbitrary: s) (simp_all split: prod.splits)

lemma decode_loop_dup_swap:
  "(\<And>s. on_chunk_dup s c = on_chunk_dup s c') \<Longrightarrow>
   decode_loop_dup s (pre @ c # post) = decode_loop_dup s (pre @ c' # post)"
  by (induction pre arbitrary: s) (simp_all split: prod.splits)

lemma on_chunk_dup_cache:
  "UsageEvent u \<in> set (snd (on_chunk_dup s c)) \<Longrightarrow>
   cacheWriteTokens u \<noteq> Some 0 \<and> cacheReadTokens u \<noteq> Some 0"
  by (cases "(s, c)" rule: on_chunk_dup.cases)
     (auto simp: Let_def or_undefined_not_zero split: if_splits)

lemma decode_loop_dup_cache:
  "UsageEvent u \<in> set (snd (decode_loop_dup s cs)) \<Longrightarrow>
   cacheWriteTokens u \<noteq> Some 0 \<and> cacheReadTokens u \<noteq> Some 0"
proof (induction cs arbitrary: s)
  case Nil
  then show ?case by simp
next
  case (Cons c cs)
  from Cons.prems have "UsageEvent u \<in> set (snd (on_chunk_dup s c))
      \<or> UsageEvent u \<in> set (snd (decode_loop_dup (fst (on_chunk_dup s c)) cs))"
    unfolding decode_loop_dup_Cons by simp
  then show ?case using on_chunk_dup_cache Cons.IH by blast
qed

lemma decode_cache:
  "UsageEvent u \<in> set (decode cs) \<Longrightarrow> cacheWriteTokens u \<noteq> Some 0 \<and> cacheReadTokens u \<noteq> Some 0"
proof -
  assume a: "UsageEvent u \<in> set (decode cs)"
  have "UsageEvent u \<notin> set (snd (decode_loop initial_state cs))"
    using decode_loop_texts [of initial_state cs] by (auto simp: list_all_iff)
  with a have "UsageEvent u = final_usage_event (fst (decode_loop initial_state cs))"
    by (simp add: decode_shape)
  then show ?thesis
    by (auto simp: final_usage_event_def or_undefined_not_zero)
qed

subsection \<open>Requests\<close>

lemma getModel_info_defined:
  "anthropicModels api (anthropicDefaultModelId api) \<noteq> None \<Longrightarrow>
   \<exists>m. info_maxTokens (info (getModel api opts)) = Inr m"
  by (auto simp: getModel_def info_maxTokens_def js_get_def js_in_def
      split: option.splits property.splits if_splits)

section \<open>The claims\<close>

subsection \<open>C1: the usage event at the end of a stream\<close>

lemma createMessage_events:
  "createMessage api opts backend sp ms = Inr evs \<Longrightarrow>
   \<exists>req. build_request api opts sp ms = Inr req \<and> evs = decode (backend req)"
  by (auto simp: createMessage_def traceableMethod_def split: sum.splits)

lemma decode_openai_last_usage:
  assumes "list_all (\<lambda>c. chunk_usage c = None) pre" and "chunk_usage c \<noteq> None"
  shows "\<exists>txts u. list_all is_text txts \<and> decode_openai (pre @ [c]) = txts @ [UsageEvent u]"
proof -
  from assms(2) obtain cu where cu: "chunk_usage c = Some cu" by auto
  let ?u = "\<lparr>inputTokens = or_zero (prompt_tokens cu), outputTokens = or_zero (completion_tokens cu),
             cacheWriteTokens = None, cacheReadTokens = None\<rparr>"
  let ?t = "case first_content c of None \<Rightarrow> [] | Some t \<Rightarrow> if t \<noteq> [] then [TextEvent t] else []"
  have c: "on_chunk_openai c = ?t @ [UsageEvent ?u]"
    by (simp add: on_chunk_openai_def cu)
  have t: "list_all is_text ?t"
    by (simp split: option.splits)
  have "decode_openai (pre @ [c]) = (decode_openai pre @ ?t) @ [UsageEvent ?u]"
    by (simp add: decode_openai_append c)
  moreover have "list_all is_text (decode_openai pre @ ?t)"
    using decode_openai_no_usage [OF assms(1)] t by simp
  ultimately show ?thesis by blast
qed

text \<open>
  C1 does not hold as stated: when the backend of the OpenAI handler reports no usage,
  the handler yields no usage event at all.
\<close>

theorem usage_event_missing:
  "usage_events_after_last_text
     (createMessage_openai id example_options (answer_with [text_chunk ''Hel'', text_chunk ''lo''])
        ''sys'' example_turns) \<noteq> 1"
  by (simp add: createMessage_openai_def traceableMethod_def answer_with_def text_chunk_def
      on_chunk_openai_def first_content_def first_delta_def usage_events_after_last_text_def)

text \<open>
  C1, as amended. For every chunk sequence the handler yields exactly one usage event:
  it is the last event, every event before it is a text event, and it is built from the
  usage state at the natural end of the stream. The OpenAI handler yields one usage event
  for each chunk that carries a usage object; when the last chunk is the only one that
  does, this is exactly one usage event, and it follows the last text event.
\<close>

theorem usage_event_once:
  "(createMessage api opts backend sp ms = Inr evs \<longrightarrow>
      (\<exists>req txts. build_request api opts sp ms = Inr req \<and> list_all is_text txts \<and>
         evs = txts @ [final_usage_event (fst (decode_loop initial_state (backend req)))]) \<and>
      length (filter is_usage evs) = 1 \<and>
      usage_events_after_last_text evs = 1) \<and>
   length (filter is_usage (createMessage_openai convert opts backend' sp ms))
     = length (filter (\<lambda>c. chunk_usage c \<noteq> None)
         (backend' (build_request_openai convert opts sp ms))) \<and>
   (backend' (build_request_openai convert opts sp ms) = pre @ [c] \<and>
      list_all (\<lambda>c. chunk_usage c = None) pre \<and> chunk_usage c \<noteq> None \<longrightarrow>
      length (filter is_usage (createMessage_openai convert opts backend' sp ms)) = 1 \<and>
      usage_events_after_last_text (createMessage_openai convert opts backend' sp ms) = 1)"
proof (intro conjI impI)
  assume a: "createMessage api opts backend sp ms = Inr evs"
  then obtain req where req: "build_request api opts sp ms = Inr req" "evs = decode (backend req)"
    using createMessage_events by blast
  let ?txts = "snd (decode_loop initial_state (backend req))"
  let ?last = "final_usage_event (fst (decode_loop initial_state (backend req)))"
  have evs: "evs = ?txts @ [?last]"
    using req(2) decode_shape by simp
  have txts: "list_all is_text ?txts"
    by (rule decode_loop_texts)
  show "\<exists>req txts. build_request api opts sp ms = Inr req \<and> list_all is_text txts \<and>
         evs = txts @ [final_usage_event (fst (decode_loop initial_state (backend req)))]"
    using req(1) evs txts by blast
  show "length (filter is_usage evs) = 1"
    unfolding evs using filter_usage_texts [OF txts] by (simp add: final_usage_event_def)
  show "usage_events_after_last_text evs = 1"
    unfolding evs final_usage_event_def by (rule trailing_usage_snoc [OF txts])
next
  show "length (filter is_usage (createMessage_openai convert opts backend' sp ms))
     = length (filter (\<lambda>c. chunk_usage c \<noteq> None)
         (backend' (build_request_openai convert opts sp ms)))"
    by (simp add: createMessage_openai_def traceableMethod_def decode_openai_usage_count)
next
  assume a: "backend' (build_request_openai convert opts sp ms) = pre @ [c] \<and>
      list_all (\<lambda>c. chunk_usage c = None) pre \<and> chunk_usage c \<noteq> None"
  then obtain txts u where t: "list_all is_text txts" "decode_openai (pre @ [c]) = txts @ [UsageEvent u]"
    using decode_openai_last_usage by blast
  have evs: "createMessage_openai convert opts backend' sp ms = txts @ [UsageEvent u]"
    using a t(2) by (simp add: createMessage_openai_def traceableMethod_def)
  show "length (filter is_usage (createMessage_openai convert opts backend' sp ms)) = 1"
    unfolding evs using filter_usage_texts [OF t(1)] by simp
  show "usage_events_after_last_text (createMessage_openai convert opts backend' sp ms) = 1"
    unfolding evs by (rule trailing_usage_snoc [OF t(1)])
qed

lemma hello_events:
  "createMessage example_api example_options (answer_with hello_stream) ''sys'' example_turns
     = Inr [TextEvent ''Hello'',
            UsageEvent \<lparr>inputTokens = 5, outputTokens = 8,
                        cacheWriteTokens = None, cacheReadTokens = None\<rparr>]"
  by (simp add: createMessage_def build_request_def getModel_def example_api_def
      example_options_def js_in_def js_get_def info_maxTokens_def traceableMethod_def
      answer_with_def hello_stream_def decode_def initial_state_def createUsage_def
      start_usage_def final_usage_event_def or_zero_def or_undefined_def or_empty_def
      Let_def cache_model_ids_def)

theorem usage_event_once_witness:
  "createMessage example_api example_options (answer_with hello_stream) ''sys'' example_turns
     = Inr [TextEvent ''Hello'',
            UsageEvent \<lparr>inputTokens = 5, outputTokens = 8,
                        cacheWriteTokens = None, cacheReadTokens = None\<rparr>] \<and>
   usage_events_after_last_text
     [TextEvent ''Hello'',
      UsageEvent \<lparr>inputTokens = 5, outputTokens = 8,
                  cacheWriteTokens = None, cacheReadTokens = None\<rparr>] = 1 \<and>
   answer_with scenario_A (build_request_openai id example_options ''sys'' example_turns)
     = [text_chunk ''Hel'', text_chunk ''lo''] @ [usage_chunk 10 2] \<and>
   list_all (\<lambda>c. chunk_usage c = None) [text_chunk ''Hel'', text_chunk ''lo''] \<and>
   chunk_usage (usage_chunk 10 2) \<noteq> None \<and>
   usage_events_after_last_text
     (createMessage_openai id example_options (answer_with scenario_A) ''sys'' example_turns) = 1"
proof -
  have h1: "answer_with scenario_A (build_request_openai id example_options ''sys'' example_turns)
     = [text_chunk ''Hel'', text_chunk ''lo''] @ [usage_chunk 10 2]"
    by (simp add: answer_with_def scenario_A_def)
  have h2: "list_all (\<lambda>c. chunk_usage c = None) [text_chunk ''Hel'', text_chunk ''lo'']"
    by (simp add: text_chunk_def)
  have h3: "chunk_usage (usage_chunk 10 2) \<noteq> None"
    by (simp add: usage_chunk_def)
  note inst = usage_event_once [where api = example_api and opts = example_options
      and backend = "answer_with hello_stream" and sp = "''sys''" and ms = example_turns
      and evs = "[TextEvent ''Hello'',
            UsageEvent \<lparr>inputTokens = 5, outputTokens = 8,
                        cacheWriteTokens = None, cacheReadTokens = None\<rparr>]"
      and convert = id and backend' = "answer_with scenario_A"
      and pre = "[text_chunk ''Hel'', text_chunk ''lo'']" and c = "usage_chunk 10 2"]
  from inst hello_events have c1: "usage_events_after_last_text
     [TextEvent ''Hello'',
      UsageEvent \<lparr>inputTokens = 5, outputTokens = 8,
                  cacheWriteTokens = None, cacheReadTokens = None\<rparr>] = 1"
    by blast
  from inst h1 h2 h3 have c2: "usage_events_after_last_text
     (createMessage_openai id example_options (answer_with scenario_A) ''sys'' example_turns) = 1"
    by blast
  show ?thesis using hello_events h1 h2 h3 c1 c2 by blast
qed

subsection \<open>C2: cache directives on the last two user turns\<close>

lemma example_user_turns: "user_turns example_turns = [0, 2]"
proof -
  have "[0..<length example_turns] = [0, 1, 2]"
    by (simp add: example_turns_def upt_rec)
  then show ?thesis
    by (simp add: user_turns_def example_turns_def user_message_def assistant_message_def)
qed

lemma example_request:
  "build_request example_api example_options ''sys'' example_turns
     = Inr \<lparr>endpoint = PromptCachingMessages, model = ''claude-3-5-sonnet-20241022'',
            max_tokens = 8192, temperature = 0, system = SystemString ''sys'',
            messages = cached_messages example_turns, stream = True,
            headers = Some [(''anthropic-beta'', ''prompt-caching-2024-07-31'')]\<rparr>"
  by (simp add: build_request_def getModel_def example_api_def example_options_def js_in_def
      js_get_def info_maxTokens_def Let_def cache_model_ids_def or_8192_def)

lemma example_request_dup:
  "build_request_dup example_api example_options ''sys'' example_turns
     = Inr \<lparr>endpoint = PromptCachingMessages, model = ''claude-3-5-sonnet-20241022'',
            max_tokens = 8192, temperature = 0,
            system = SystemParts [\<lparr>body = TextParam ''sys'', cache_control = Some Ephemeral\<rparr>],
            messages = cached_messages example_turns, stream = True,
            headers = Some [(''anthropic-beta'', ''prompt-caching-2024-07-31'')]\<rparr>"
  by (simp add: build_request_dup_def getModel_def example_api_def example_options_def js_in_def
      js_get_def info_maxTokens_def Let_def cache_model_ids_def or_8192_def)

lemma plain_request:
  "build_request example_api plain_options ''sys'' example_turns
     = Inr \<lparr>endpoint = Messages, model = ''claude-3-sonnet-20240229'',
            max_tokens = 8192, temperature = 0, system = SystemString ''sys'',
            messages = example_turns, stream = True, headers = None\<rparr>"
  by (simp add: build_request_def getModel_def example_api_def plain_options_def js_in_def
      js_get_def info_maxTokens_def Let_def cache_model_ids_def or_8192_def)

lemma plain_request_dup:
  "build_request_dup example_api plain_options ''sys'' example_turns
     = Inr \<lparr>endpoint = Messages, model = ''claude-3-sonnet-20240229'',
            max_tokens = 8192, temperature = 0,
            system = SystemParts [\<lparr>body = TextParam ''sys'', cache_control = None\<rparr>],
            messages = example_turns, stream = True, headers = None\<rparr>"
  by (simp add: build_request_dup_def getModel_def example_api_def plain_options_def js_in_def
      js_get_def info_maxTokens_def Let_def cache_model_ids_def or_8192_def)

text \<open>
  The system prompt is no message. The handler sends it as a string; the duplicate
  variant sends it as one text part, which carries a directive of its own in the cache
  branch and none in the other branch.
\<close>

lemma system_field:
  "(build_request api opts sp ms = Inr r \<longrightarrow> system r = SystemString sp) \<and>
   (build_request_dup api opts sp ms = Inr r' \<longrightarrow>
      system r' = SystemParts [\<lparr>body = TextParam sp,
                                cache_control = (if model r' \<in> set cache_model_ids
                                                 then Some Ephemeral else None)\<rparr>])"
  by (auto simp: build_request_def build_request_dup_def Let_def split: sum.splits if_splits)

lemma request_model:
  "(build_request api opts sp ms = Inr r \<longrightarrow> model r = model_id (getModel api opts)) \<and>
   (build_request_dup api opts sp ms = Inr r' \<longrightarrow> model r' = model_id (getModel api opts))"
  by (auto simp: build_request_def build_request_dup_def Let_def split: sum.splits if_splits)

lemma cached_single_user_turn:
  "cached_messages [user_message ''a'']
     = [\<lparr>role = User,
         content = PartsContent [\<lparr>body = TextParam ''a'', cache_control = Some Ephemeral\<rparr>]\<rparr>]"
  by (simp add: cached_messages_def lastUserMsgIndex_def secondLastMsgUserIndex_def
      userMsgIndices_def js_index_def with_cache_control_def user_message_def)

lemma cached_no_turn: "cached_messages [] = []"
  by (simp add: cached_messages_def)

text \<open>
  C2 does not hold as stated, on two counts. The request of the duplicate variant
  carries a directive on a part that belongs to no user message, the text part of the
  system prompt, even for a conversation without any turn. And the descriptor's flag is
  not what decides: the branch is chosen by the model id, so the handler annotates the
  user turn for a model whose descriptor has \<^verbatim>\<open>supportsPromptCache\<close> false.
\<close>

theorem system_part_annotated_and_flag_unread:
  "build_request_dup example_api example_options ''sys'' []
     = Inr \<lparr>endpoint = PromptCachingMessages, model = ''claude-3-5-sonnet-20241022'',
            max_tokens = 8192, temperature = 0,
            system = SystemParts [\<lparr>body = TextParam ''sys'', cache_control = Some Ephemeral\<rparr>],
            messages = [], stream = True,
            headers = Some [(''anthropic-beta'', ''prompt-caching-2024-07-31'')]\<rparr> \<and>
   info (getModel unflagged_api example_options)
     = OwnValue \<lparr>maxTokens = Some 8192, supportsPromptCache = False\<rparr> \<and>
   build_request unflagged_api example_options ''sys'' [user_message ''a'']
     = Inr \<lparr>endpoint = PromptCachingMessages, model = ''claude-3-5-sonnet-20241022'',
            max_tokens = 8192, temperature = 0, system = SystemString ''sys'',
            messages =
              [\<lparr>role = User,
                content = PartsContent [\<lparr>body = TextParam ''a'', cache_control = Some Ephemeral\<rparr>]\<rparr>],
            stream = True,
            headers = Some [(''anthropic-beta'', ''prompt-caching-2024-07-31'')]\<rparr>"
  by (simp add: build_request_def build_request_dup_def getModel_def example_api_def
      unflagged_api_def example_options_def js_in_def js_get_def info_maxTokens_def Let_def
      cache_model_ids_def or_8192_def cached_single_user_turn cached_no_turn)

text \<open>
  C2, as amended. The branch of the request is decided by the resolved model id, not by
  the descriptor's flag. For every message list, the request of either Anthropic variant
  for one of the four model ids of the cache branch carries the messages with a
  directive \<open>Ephemeral\<close> on exactly the last part of the last and of the second-to-last
  user message: such a message keeps its role, its body becomes a list of parts (a
  string body is one text part) with the same parts, the last one carrying the directive
  and the others their former annotation; every other message is passed unchanged. For
  any other model id the messages are passed unchanged. The system prompt is no message:
  the handler sends it as a string, which has no directive, and the duplicate variant
  sends it as one text part, with a directive in the cache branch and none otherwise.
\<close>

theorem cache_hints_on_last_two_user_turns:
  "length (cached_messages ms) = length ms \<and>
   (\<forall>i<length ms.
      role (cached_messages ms ! i) = role (ms ! i) \<and>
      (\<not> selected_turn ms i \<longrightarrow> cached_messages ms ! i = ms ! i) \<and>
      (selected_turn ms i \<longrightarrow>
         (\<exists>ps. content (cached_messages ms ! i) = PartsContent ps \<and>
               length ps = length (as_parts (content (ms ! i))) \<and>
               (\<forall>j<length ps.
                  body (ps ! j) = body (as_parts (content (ms ! i)) ! j) \<and>
                  cache_control (ps ! j) =
                    (if Suc j = length ps then Some Ephemeral
                     else cache_control (as_parts (content (ms ! i)) ! j)))))) \<and>
   (build_request api opts sp ms = Inr r \<longrightarrow>
      model r = model_id (getModel api opts) \<and>
      messages r = (if model r \<in> set cache_model_ids then cached_messages ms else ms) \<and>
      system r = SystemString sp) \<and>
   (build_request_dup api opts sp ms = Inr r' \<longrightarrow>
      model r' = model_id (getModel api opts) \<and>
      messages r' = (if model r' \<in> set cache_model_ids then cached_messages ms else ms) \<and>
      system r' = SystemParts [\<lparr>body = TextParam sp,
                                cache_control = (if model r' \<in> set cache_model_ids
                                                 then Some Ephemeral else None)\<rparr>])"
proof (intro conjI allI impI)
  show "length (cached_messages ms) = length ms"
    by (rule length_cached_messages)
next
  fix i assume i: "i < length ms"
  show "role (cached_messages ms ! i) = role (ms ! i)"
    by (simp add: cached_messages_nth [OF i] role_with_cache_control)
next
  fix i assume i: "i < length ms" and "\<not> selected_turn ms i"
  then show "cached_messages ms ! i = ms ! i"
    by (simp add: cached_messages_nth)
next
  fix i assume i: "i < length ms" and "selected_turn ms i"
  then have "cached_messages ms ! i = with_cache_control (ms ! i)"
    by (simp add: cached_messages_nth)
  then show "\<exists>ps. content (cached_messages ms ! i) = PartsContent ps \<and>
               length ps = length (as_parts (content (ms ! i))) \<and>
               (\<forall>j<length ps.
                  body (ps ! j) = body (as_parts (content (ms ! i)) ! j) \<and>
                  cache_control (ps ! j) =
                    (if Suc j = length ps then Some Ephemeral
                     else cache_control (as_parts (content (ms ! i)) ! j)))"
    using content_with_cache_control [of "ms ! i"] by simp
next
  assume a: "build_request api opts sp ms = Inr r"
  from a show "model r = model_id (getModel api opts)"
    using request_model by blast
  from a show "messages r = (if model r \<in> set cache_model_ids then cached_messages ms else ms)"
    by (rule build_request_messages)
  from a show "system r = SystemString sp"
    using system_field by blast
next
  assume a: "build_request_dup api opts sp ms = Inr r'"
  from a show "model r' = model_id (getModel api opts)"
    using request_model by blast
  from a show "messages r' = (if model r' \<in> set cache_model_ids then cached_messages ms else ms)"
    by (rule build_request_dup_messages)
  from a show "system r' = SystemParts [\<lparr>body = TextParam sp,
                                cache_control = (if model r' \<in> set cache_model_ids
                                                 then Some Ephemeral else None)\<rparr>]"
    using system_field by blast
qed

text \<open>
  On the conversation \<^verbatim>\<open>[user:"a", assistant:"b", user:"c"]\<close> the two user turns are the
  selected ones: both bodies are wrapped and annotated, the assistant turn is unchanged;
  for a model outside the cache branch the conversation is sent as it is.
\<close>

theorem cache_hints_on_last_two_user_turns_witness:
  "selected_turn example_turns 0 \<and> \<not> selected_turn example_turns 1 \<and>
   selected_turn example_turns 2 \<and>
   cached_messages example_turns ! 1 = assistant_message ''b'' \<and>
   (\<exists>ps. content (cached_messages example_turns ! 0) = PartsContent ps \<and> length ps = 1 \<and>
         body (ps ! 0) = TextParam ''a'' \<and> cache_control (ps ! 0) = Some Ephemeral) \<and>
   (\<exists>ps. content (cached_messages example_turns ! 2) = PartsContent ps \<and> length ps = 1 \<and>
         body (ps ! 0) = TextParam ''c'' \<and> cache_control (ps ! 0) = Some Ephemeral) \<and>
   (\<exists>r. build_request example_api example_options ''sys'' example_turns = Inr r \<and>
        model r \<in> set cache_model_ids \<and>
        messages r = cached_messages example_turns \<and> system r = SystemString ''sys'') \<and>
   (\<exists>r. build_request_dup example_api example_options ''sys'' example_turns = Inr r \<and>
        model r \<in> set cache_model_ids \<and>
        messages r = cached_messages example_turns \<and>
        system r = SystemParts [\<lparr>body = TextParam ''sys'', cache_control = Some Ephemeral\<rparr>]) \<and>
   (\<exists>r. build_request example_api plain_options ''sys'' example_turns = Inr r \<and>
        model r \<notin> set cache_model_ids \<and>
        messages r = example_turns \<and> system r = SystemString ''sys'') \<and>
   (\<exists>r. build_request_dup example_api plain_options ''sys'' example_turns = Inr r \<and>
        model r \<notin> set cache_model_ids \<and>
        messages r = example_turns \<and>
        system r = SystemParts [\<lparr>body = TextParam ''sys'', cache_control = None\<rparr>])"
proof -
  note inst = cache_hints_on_last_two_user_turns [where ms = example_turns and api = example_api
      and opts = example_options and sp = "''sys''"]
  have len: "length example_turns = 3"
    by (simp add: example_turns_def)
  have s0: "selected_turn example_turns 0" and s1: "\<not> selected_turn example_turns 1"
    and s2: "selected_turn example_turns 2"
    by (simp_all add: selected_turn_def example_user_turns)
  have nth: "example_turns ! 0 = user_message ''a''" "example_turns ! 1 = assistant_message ''b''"
    "example_turns ! 2 = user_message ''c''"
    by (simp_all add: example_turns_def)
  from inst len s1 nth(2) have c1: "cached_messages example_turns ! 1 = assistant_message ''b''"
    by simp
  from inst len s0 have "\<exists>ps. content (cached_messages example_turns ! 0) = PartsContent ps \<and>
       length ps = length (as_parts (content (example_turns ! 0))) \<and>
       (\<forall>j<length ps. body (ps ! j) = body (as_parts (content (example_turns ! 0)) ! j) \<and>
          cache_control (ps ! j) =
            (if Suc j = length ps then Some Ephemeral
             else cache_control (as_parts (content (example_turns ! 0)) ! j)))"
    by simp
  then have c0: "\<exists>ps. content (cached_messages example_turns ! 0) = PartsContent ps \<and>
       length ps = 1 \<and> body (ps ! 0) = TextParam ''a'' \<and> cache_control (ps ! 0) = Some Ephemeral"
    by (auto simp: nth user_message_def)
  from inst len s2 have "\<exists>ps. content (cached_messages example_turns ! 2) = PartsContent ps \<and>
       length ps = length (as_parts (content (example_turns ! 2))) \<and>
       (\<forall>j<length ps. body (ps ! j) = body (as_parts (content (example_turns ! 2)) ! j) \<and>
          cache_control (ps ! j) =
            (if Suc j = length ps then Some Ephemeral
             else cache_control (as_parts (content (example_turns ! 2)) ! j)))"
    by simp
  then have c2: "\<exists>ps. content (cached_messages example_turns ! 2) = PartsContent ps \<and>
       length ps = 1 \<and> body (ps ! 0) = TextParam ''c'' \<and> cache_control (ps ! 0) = Some Ephemeral"
    by (auto simp: nth user_message_def)
  have r: "\<exists>r. build_request example_api example_options ''sys'' example_turns = Inr r \<and>
        model r \<in> set cache_model_ids \<and>
        messages r = cached_messages example_turns \<and> system r = SystemString ''sys''"
    by (simp add: example_request cache_model_ids_def)
  have r': "\<exists>r. build_request_dup example_api example_options ''sys'' example_turns = Inr r \<and>
        model r \<in> set cache_model_ids \<and>
        messages r = cached_messages example_turns \<and>
        system r = SystemParts [\<lparr>body = TextParam ''sys'', cache_control = Some Ephemeral\<rparr>]"
    by (simp add: example_request_dup cache_model_ids_def)
  have p: "\<exists>r. build_request example_api plain_options ''sys'' example_turns = Inr r \<and>
        model r \<notin> set cache_model_ids \<and>
        messages r = example_turns \<and> system r = SystemString ''sys''"
    by (simp add: plain_request cache_model_ids_def)
  have p': "\<exists>r. build_request_dup example_api plain_options ''sys'' example_turns = Inr r \<and>
        model r \<notin> set cache_model_ids \<and>
        messages r = example_turns \<and>
        system r = SystemParts [\<lparr>body = TextParam ''sys'', cache_control = None\<rparr>]"
    by (simp add: plain_request_dup cache_model_ids_def)
  show ?thesis using s0 s1 s2 c1 c0 c2 r r' p p' by blast
qed

subsection \<open>C3: text deltas\<close>

text \<open>The duplicate variant yields the text of a text delta as it arrives.\<close>

lemma text_delta_yielded_dup:
  "on_chunk_dup s (ContentBlockDelta i (TextDelta t)) = (s\<lparr>fullText := fullText s @ t\<rparr>, [TextEvent t])"
  by simp

text \<open>
  C3 fails for the handler: a text delta is appended to \<^verbatim>\<open>currentBlockText\<close> and nothing
  is yielded for it; the deltas \<^verbatim>\<open>"Hel"\<close> and \<^verbatim>\<open>"lo"\<close> of one block reach the caller as the
  single text \<^verbatim>\<open>"Hello"\<close>, at \<^verbatim>\<open>message_stop\<close>.
\<close>

theorem text_delta_buffered:
  "on_chunk s (ContentBlockDelta i (TextDelta t)) = (s\<lparr>currentBlockText := currentBlockText s @ t\<rparr>, []) \<and>
   decode [ContentBlockStart 0 (TextBlock []),
           ContentBlockDelta 0 (TextDelta ''Hel''), ContentBlockDelta 0 (TextDelta ''lo''),
           ContentBlockStop 0, MessageStop]
     = [TextEvent ''Hello'',
        UsageEvent \<lparr>inputTokens = 0, outputTokens = 0, cacheWriteTokens = None, cacheReadTokens = None\<rparr>]"
  by (simp add: decode_def initial_state_def createUsage_def final_usage_event_def
      or_undefined_def or_empty_def)

subsection \<open>C5: the output-token count of a message delta\<close>

text \<open>The duplicate variant overwrites the running count.\<close>

lemma message_delta_overwrites_dup:
  "outputTokens (usageData (fst (on_chunk_dup s (MessageDelta n)))) = n"
  by (simp add: or_zero_def)

text \<open>
  C5 fails for the handler: the count of a \<^verbatim>\<open>message_delta\<close> is added to the running
  count; after a start reporting 1 output token, a delta reporting 7 gives 8.
\<close>

theorem message_delta_added:
  "outputTokens (usage (fst (on_chunk s (MessageDelta n)))) = outputTokens (usage s) + n \<and>
   decode [MessageStart (start_usage 5 1), MessageDelta 7]
     = [UsageEvent \<lparr>inputTokens = 5, outputTokens = 8, cacheWriteTokens = None, cacheReadTokens = None\<rparr>]"
  by (simp add: decode_def initial_state_def createUsage_def final_usage_event_def
      or_undefined_def or_zero_def start_usage_def)

subsection \<open>C7: the start of a content block\<close>

text \<open>
  The duplicate variant yields the inline text of a block as the block starts, after one
  newline when the block's index is not 0.
\<close>

lemma block_start_yielded_dup:
  "snd (on_chunk_dup s (ContentBlockStart i (TextBlock t)))
     = (if i > 0 then [TextEvent newline, TextEvent t] else [TextEvent t])"
  by simp

text \<open>
  C7 fails for the handler: nothing is yielded when a block starts; the separator and the
  inline text are buffered, and two blocks \<^verbatim>\<open>"A"\<close> and \<^verbatim>\<open>"B"\<close> reach the caller as one text
  event at \<^verbatim>\<open>message_stop\<close>.
\<close>

theorem block_start_buffered:
  "snd (on_chunk s (ContentBlockStart i (TextBlock t))) = [] \<and>
   decode two_blocks
     = [TextEvent (''A'' @ newline @ ''B''),
        UsageEvent \<lparr>inputTokens = 0, outputTokens = 0, cacheWriteTokens = None, cacheReadTokens = None\<rparr>]"
  by (simp add: decode_def initial_state_def createUsage_def final_usage_event_def
      or_undefined_def or_empty_def two_blocks_def newline_def)

subsection \<open>C4: the two Anthropic variants\<close>

lemma hello_events_dup:
  "createMessage_dup example_api example_options (answer_with hello_stream) ''sys'' example_turns
     = Inr [UsageEvent \<lparr>inputTokens = 5, outputTokens = 1,
                        cacheWriteTokens = None, cacheReadTokens = None\<rparr>,
            TextEvent [], TextEvent ''Hel'', TextEvent ''lo'']"
  by (simp add: createMessage_dup_def build_request_dup_def getModel_def example_api_def
      example_options_def js_in_def js_get_def info_maxTokens_def traceableMethod_def
      answer_with_def hello_stream_def decode_dup_def initial_state_dup_def
      start_usage_def or_zero_def or_undefined_def Let_def cache_model_ids_def)

text \<open>
  C4 does not hold as stated: on one and the same stream, a complete answer in one text
  block, the two variants yield different event sequences.
\<close>

theorem variants_differ:
  "createMessage example_api example_options (answer_with hello_stream) ''sys'' example_turns
     \<noteq> createMessage_dup example_api example_options (answer_with hello_stream) ''sys'' example_turns"
  by (simp add: hello_events hello_events_dup)

text \<open>
  C4, as amended. The two variants build requests that fail alike or agree in endpoint,
  model, token limit, temperature, messages, stream flag and headers; the system prompt
  is a string in the handler's request and one text part with the same text in the
  duplicate's, with a directive exactly in the cache branch. On a well-formed stream of
  text blocks the texts of the events they yield have the same concatenation.
\<close>

theorem variants_agree_on_request_and_text:
  "(case build_request api opts sp ms of
      Inl e \<Rightarrow> build_request_dup api opts sp ms = Inl e
    | Inr r \<Rightarrow>
        (\<exists>r'. build_request_dup api opts sp ms = Inr r' \<and>
              endpoint r' = endpoint r \<and> model r' = model r \<and> max_tokens r' = max_tokens r \<and>
              temperature r' = temperature r \<and> messages r' = messages r \<and>
              stream r' = stream r \<and> headers r' = headers r \<and>
              system r = SystemString sp \<and>
              system r' = SystemParts [\<lparr>body = TextParam sp,
                                        cache_control = (if model r \<in> set cache_model_ids
                                                         then Some Ephemeral else None)\<rparr>])) \<and>
   (well_formed_from 0 False cs \<longrightarrow> concat (texts (decode cs)) = concat (texts (decode_dup cs)))"
proof (intro conjI impI)
  show "case build_request api opts sp ms of
      Inl e \<Rightarrow> build_request_dup api opts sp ms = Inl e
    | Inr r \<Rightarrow>
        (\<exists>r'. build_request_dup api opts sp ms = Inr r' \<and>
              endpoint r' = endpoint r \<and> model r' = model r \<and> max_tokens r' = max_tokens r \<and>
              temperature r' = temperature r \<and> messages r' = messages r \<and>
              stream r' = stream r \<and> headers r' = headers r \<and>
              system r = SystemString sp \<and>
              system r' = SystemParts [\<lparr>body = TextParam sp,
                                        cache_control = (if model r \<in> set cache_model_ids
                                                         then Some Ephemeral else None)\<rparr>])"
    by (cases "info_maxTokens (info (getModel api opts))")
       (simp_all add: build_request_def build_request_dup_def Let_def)
next
  assume "well_formed_from 0 False cs"
  then show "concat (texts (decode cs)) = concat (texts (decode_dup cs))"
    by (rule same_text)
qed

lemma hello_well_formed: "well_formed_from 0 False hello_stream"
  by (simp add: hello_stream_def)

theorem variants_agree_on_request_and_text_witness:
  "well_formed_from 0 False hello_stream \<and>
   concat (texts (decode hello_stream)) = concat (texts (decode_dup hello_stream)) \<and>
   concat (texts (decode_dup hello_stream)) = ''Hello'' \<and>
   (\<exists>r'. build_request_dup example_api example_options ''sys'' example_turns = Inr r' \<and>
         messages r' = cached_messages example_turns \<and>
         system r' = SystemParts [\<lparr>body = TextParam ''sys'', cache_control = Some Ephemeral\<rparr>])"
proof -
  note inst = variants_agree_on_request_and_text [where cs = hello_stream and api = example_api
      and opts = example_options and sp = "''sys''" and ms = example_turns]
  from inst hello_well_formed
  have t: "concat (texts (decode hello_stream)) = concat (texts (decode_dup hello_stream))"
    by blast
  have t': "concat (texts (decode_dup hello_stream)) = ''Hello''"
    by (simp add: hello_stream_def decode_dup_def initial_state_dup_def Let_def)
  from inst have "\<exists>r'. build_request_dup example_api example_options ''sys'' example_turns = Inr r' \<and>
         messages r' = cached_messages example_turns \<and>
         system r' = SystemParts [\<lparr>body = TextParam ''sys'', cache_control = Some Ephemeral\<rparr>]"
    by (auto simp: example_request cache_model_ids_def)
  then show ?thesis using hello_well_formed t t' by blast
qed

subsection \<open>C6: the OpenAI decoder\<close>

lemma decode_openai_concat: "decode_openai cs = concat (map on_chunk_openai cs)"
  by (induction cs) simp_all

lemma scenario_A_events:
  "decode_openai scenario_A
     = [TextEvent ''Hel'', TextEvent ''lo'',
        UsageEvent \<lparr>inputTokens = 10, outputTokens = 2,
                    cacheWriteTokens = None, cacheReadTokens = None\<rparr>]"
  by (simp add: scenario_A_def text_chunk_def usage_chunk_def on_chunk_openai_def
      first_content_def first_delta_def or_zero_def)

text \<open>
  C6. The events of the OpenAI handler are those of its chunks, chunk after chunk: a
  chunk whose first choice has a non-empty \<^verbatim>\<open>delta.content\<close> yields one text event with
  that text, a chunk with a usage object yields one usage event with the chunk's own
  prompt and completion counts (after the text, when it has both), whatever the chunks
  before it carried; scenario A yields \<^verbatim>\<open>[Text("Hel"), Text("lo"), Usage(10,2)]\<close>.
\<close>

theorem openai_events_per_chunk:
  "(first_content c = Some t \<and> t \<noteq> [] \<longrightarrow> filter is_text (on_chunk_openai c) = [TextEvent t]) \<and>
   (chunk_usage c = Some cu \<longrightarrow>
      filter is_usage (on_chunk_openai c)
        = [UsageEvent \<lparr>inputTokens = prompt_tokens cu, outputTokens = completion_tokens cu,
                       cacheWriteTokens = None, cacheReadTokens = None\<rparr>]) \<and>
   decode_openai (pre @ c # post) = decode_openai pre @ on_chunk_openai c @ decode_openai post \<and>
   createMessage_openai convert opts backend sp ms
     = concat (map on_chunk_openai (backend (build_request_openai convert opts sp ms))) \<and>
   createMessage_openai convert opts (answer_with scenario_A) sp ms
     = [TextEvent ''Hel'', TextEvent ''lo'',
        UsageEvent \<lparr>inputTokens = 10, outputTokens = 2,
                    cacheWriteTokens = None, cacheReadTokens = None\<rparr>]"
proof (intro conjI impI)
  assume "first_content c = Some t \<and> t \<noteq> []"
  then show "filter is_text (on_chunk_openai c) = [TextEvent t]"
    by (simp add: on_chunk_openai_def split: option.splits)
next
  assume "chunk_usage c = Some cu"
  then show "filter is_usage (on_chunk_openai c)
        = [UsageEvent \<lparr>inputTokens = prompt_tokens cu, outputTokens = completion_tokens cu,
                       cacheWriteTokens = None, cacheReadTokens = None\<rparr>]"
    by (simp add: on_chunk_openai_def or_zero_id split: option.splits)
next
  show "decode_openai (pre @ c # post) = decode_openai pre @ on_chunk_openai c @ decode_openai post"
    by (simp add: decode_openai_append)
next
  show "createMessage_openai convert opts backend sp ms
     = concat (map on_chunk_openai (backend (build_request_openai convert opts sp ms)))"
    by (simp add: createMessage_openai_def traceableMethod_def decode_openai_concat)
next
  show "createMessage_openai convert opts (answer_with scenario_A) sp ms
     = [TextEvent ''Hel'', TextEvent ''lo'',
        UsageEvent \<lparr>inputTokens = 10, outputTokens = 2,
                    cacheWriteTokens = None, cacheReadTokens = None\<rparr>]"
    by (simp add: createMessage_openai_def traceableMethod_def answer_with_def scenario_A_events)
qed

theorem openai_events_per_chunk_witness:
  "first_content \<lparr>choices = [\<lparr>delta = \<lparr>delta_content = Some ''lo''\<rparr>\<rparr>],
                  chunk_usage = Some \<lparr>prompt_tokens = 10, completion_tokens = 2\<rparr>\<rparr> = Some ''lo'' \<and>
   ''lo'' \<noteq> [] \<and>
   on_chunk_openai \<lparr>choices = [\<lparr>delta = \<lparr>delta_content = Some ''lo''\<rparr>\<rparr>],
                    chunk_usage = Some \<lparr>prompt_tokens = 10, completion_tokens = 2\<rparr>\<rparr>
     = [TextEvent ''lo'',
        UsageEvent \<lparr>inputTokens = 10, outputTokens = 2,
                    cacheWriteTokens = None, cacheReadTokens = None\<rparr>] \<and>
   filter is_text
     (on_chunk_openai \<lparr>choices = [\<lparr>delta = \<lparr>delta_content = Some ''lo''\<rparr>\<rparr>],
                       chunk_usage = Some \<lparr>prompt_tokens = 10, completion_tokens = 2\<rparr>\<rparr>)
     = [TextEvent ''lo''] \<and>
   filter is_usage
     (on_chunk_openai \<lparr>choices = [\<lparr>delta = \<lparr>delta_content = Some ''lo''\<rparr>\<rparr>],
                       chunk_usage = Some \<lparr>prompt_tokens = 10, completion_tokens = 2\<rparr>\<rparr>)
     = [UsageEvent \<lparr>inputTokens = 10, outputTokens = 2,
                    cacheWriteTokens = None, cacheReadTokens = None\<rparr>]"
proof -
  let ?c = "\<lparr>choices = [\<lparr>delta = \<lparr>delta_content = Some ''lo''\<rparr>\<rparr>],
             chunk_usage = Some \<lparr>prompt_tokens = 10, completion_tokens = 2\<rparr>\<rparr>"
  note inst = openai_events_per_chunk [where c = ?c and t = "''lo''"
      and cu = "\<lparr>prompt_tokens = 10, completion_tokens = 2\<rparr>" and pre = "[]" and post = "[]"
      and convert = id and opts = example_options and backend = "answer_with scenario_A"
      and sp = "''sys''" and ms = example_turns]
  have h1: "first_content ?c = Some ''lo''"
    by (simp add: first_content_def first_delta_def)
  have h2: "''lo'' \<noteq> []" by simp
  have h3: "chunk_usage ?c = Some \<lparr>prompt_tokens = 10, completion_tokens = 2\<rparr>" by simp
  from inst h1 h2 have c1: "filter is_text (on_chunk_openai ?c) = [TextEvent ''lo'']"
    by blast
  from inst h3 have "filter is_usage (on_chunk_openai ?c)
     = [UsageEvent \<lparr>inputTokens = prompt_tokens \<lparr>prompt_tokens = 10, completion_tokens = 2\<rparr>,
                    outputTokens = completion_tokens \<lparr>prompt_tokens = 10, completion_tokens = 2\<rparr>,
                    cacheWriteTokens = None, cacheReadTokens = None\<rparr>]"
    by blast
  then have c2: "filter is_usage (on_chunk_openai ?c)
     = [UsageEvent \<lparr>inputTokens = 10, outputTokens = 2,
                    cacheWriteTokens = None, cacheReadTokens = None\<rparr>]"
    by simp
  have ev: "on_chunk_openai ?c
     = [TextEvent ''lo'',
        UsageEvent \<lparr>inputTokens = 10, outputTokens = 2,
                    cacheWriteTokens = None, cacheReadTokens = None\<rparr>]"
    by (simp add: on_chunk_openai_def first_content_def first_delta_def or_zero_def)
  show ?thesis using h1 h2 ev c1 c2 by blast
qed

subsection \<open>C8: the fixed parameters of a request\<close>

text \<open>
  C8 does not hold as stated: the request of the OpenAI handler has no token limit,
  whatever the descriptor's limit is.
\<close>

theorem openai_request_without_limit:
  "openai_max_tokens (build_request_openai id example_options ''sys'' example_turns)
     \<noteq> Some (or_8192 (maxTokens (openai_info (getModel_openai example_api example_options))))"
  by (simp add: build_request_openai_def)

text \<open>
  C8, as amended. Every request sets \<^verbatim>\<open>stream\<close> to true and \<^verbatim>\<open>temperature\<close> to 0. A request
  of either Anthropic variant sets \<^verbatim>\<open>max_tokens\<close> to the limit of the resolved model's
  descriptor, and to 8192 when that limit is absent or 0; such a request is built
  whenever the default model id is a key of the table. The request of the OpenAI handler
  sets no token limit.
\<close>

theorem request_parameters:
  "(build_request api opts sp ms = Inr r \<longrightarrow>
      stream r = True \<and> temperature r = 0 \<and>
      (\<exists>m. info_maxTokens (info (getModel api opts)) = Inr m \<and>
           max_tokens r = (case m of None \<Rightarrow> 8192 | Some n \<Rightarrow> if n = 0 then 8192 else n))) \<and>
   (build_request_dup api opts sp ms = Inr r' \<longrightarrow>
      stream r' = True \<and> temperature r' = 0 \<and>
      (\<exists>m. info_maxTokens (info (getModel api opts)) = Inr m \<and>
           max_tokens r' = (case m of None \<Rightarrow> 8192 | Some n \<Rightarrow> if n = 0 then 8192 else n))) \<and>
   (anthropicModels api (anthropicDefaultModelId api) \<noteq> None \<longrightarrow>
      (\<exists>q q'. build_request api opts sp ms = Inr q \<and> build_request_dup api opts sp ms = Inr q')) \<and>
   openai_stream (build_request_openai convert opts sp ms) = True \<and>
   openai_temperature (build_request_openai convert opts sp ms) = 0 \<and>
   openai_max_tokens (build_request_openai convert opts sp ms) = None"
proof (intro conjI impI)
  assume a: "build_request api opts sp ms = Inr r"
  then obtain m where m: "info_maxTokens (info (getModel api opts)) = Inr m"
    by (cases "info_maxTokens (info (getModel api opts))") (simp_all add: build_request_def Let_def)
  from a m show "stream r = True" "temperature r = 0"
    by (auto simp: build_request_def Let_def split: if_splits)
  from a m have "max_tokens r = or_8192 m"
    by (auto simp: build_request_def Let_def split: if_splits)
  then show "\<exists>m. info_maxTokens (info (getModel api opts)) = Inr m \<and>
           max_tokens r = (case m of None \<Rightarrow> 8192 | Some n \<Rightarrow> if n = 0 then 8192 else n)"
    using m by (auto simp: or_8192_def split: option.splits)
next
  assume a: "build_request_dup api opts sp ms = Inr r'"
  then obtain m where m: "info_maxTokens (info (getModel api opts)) = Inr m"
    by (cases "info_maxTokens (info (getModel api opts))")
       (simp_all add: build_request_dup_def Let_def)
  from a m show "stream r' = True" "temperature r' = 0"
    by (auto simp: build_request_dup_def Let_def split: if_splits)
  from a m have "max_tokens r' = or_8192 m"
    by (auto simp: build_request_dup_def Let_def split: if_splits)
  then show "\<exists>m. info_maxTokens (info (getModel api opts)) = Inr m \<and>
           max_tokens r' = (case m of None \<Rightarrow> 8192 | Some n \<Rightarrow> if n = 0 then 8192 else n)"
    using m by (auto simp: or_8192_def split: option.splits)
next
  assume "anthropicModels api (anthropicDefaultModelId api) \<noteq> None"
  then obtain m where "info_maxTokens (info (getModel api opts)) = Inr m"
    using getModel_info_defined by blast
  then show "\<exists>q q'. build_request api opts sp ms = Inr q \<and> build_request_dup api opts sp ms = Inr q'"
    by (simp add: build_request_def build_request_dup_def Let_def)
next
  show "openai_stream (build_request_openai convert opts sp ms) = True"
    "openai_temperature (build_request_openai convert opts sp ms) = 0"
    "openai_max_tokens (build_request_openai convert opts sp ms) = None"
    by (simp_all add: build_request_openai_def)
qed

theorem request_parameters_witness:
  "anthropicModels example_api (anthropicDefaultModelId example_api) \<noteq> None \<and>
   maxTokens \<lparr>maxTokens = None, supportsPromptCache = False\<rparr> = None \<and>
   info (getModel example_api plain_options)
     = OwnValue \<lparr>maxTokens = None, supportsPromptCache = False\<rparr> \<and>
   (\<exists>r. build_request example_api plain_options ''sys'' example_turns = Inr r \<and>
        stream r = True \<and> temperature r = 0 \<and> max_tokens r = 8192) \<and>
   (\<exists>r'. build_request_dup example_api plain_options ''sys'' example_turns = Inr r' \<and>
        stream r' = True \<and> temperature r' = 0 \<and> max_tokens r' = 8192)"
proof -
  obtain r where r: "build_request example_api plain_options ''sys'' example_turns = Inr r"
    "max_tokens r = 8192"
    using plain_request by simp
  obtain r' where r': "build_request_dup example_api plain_options ''sys'' example_turns = Inr r'"
    "max_tokens r' = 8192"
    using plain_request_dup by simp
  note inst = request_parameters [where api = example_api and opts = plain_options
      and sp = "''sys''" and ms = example_turns and r = r and r' = r']
  from inst r(1) have c: "stream r = True \<and> temperature r = 0" by blast
  from inst r'(1) have c': "stream r' = True \<and> temperature r' = 0" by blast
  have d: "anthropicModels example_api (anthropicDefaultModelId example_api) \<noteq> None"
    by (simp add: example_api_def)
  have i: "info (getModel example_api plain_options)
     = OwnValue \<lparr>maxTokens = None, supportsPromptCache = False\<rparr>"
    by (simp add: getModel_def example_api_def plain_options_def js_in_def js_get_def)
  show ?thesis using r r' c c' d i by auto
qed

subsection \<open>C9: model resolution\<close>

text \<open>What \<^verbatim>\<open>getModel\<close> does for an own key of the table, and for an absent, empty or foreign id.\<close>

lemma getModel_own_key:
  "apiModelId opts = Some k \<Longrightarrow> k \<noteq> [] \<Longrightarrow> anthropicModels api k = Some i \<Longrightarrow>
   getModel api opts = \<lparr>model_id = k, info = OwnValue i\<rparr>"
  by (simp add: getModel_def js_in_def js_get_def)

lemma getModel_default:
  "apiModelId opts = None \<or> apiModelId opts = Some [] \<or>
     (\<exists>k. apiModelId opts = Some k \<and> anthropicModels api k = None \<and> k \<notin> set object_prototype_keys) \<Longrightarrow>
   getModel api opts
     = \<lparr>model_id = anthropicDefaultModelId api,
        info = js_get (anthropicModels api) (anthropicDefaultModelId api)\<rparr>"
  by (auto simp: getModel_def js_in_def split: option.splits)

text \<open>
  C9 fails at an id that names a member of \<^verbatim>\<open>Object.prototype\<close>: \<^verbatim>\<open>"toString"\<close> is no key of
  the table, yet \<^verbatim>\<open>"toString" in anthropicModels\<close> holds, and \<^verbatim>\<open>getModel\<close> returns that id with
  the inherited member in place of a descriptor, not the default model.
\<close>

theorem getModel_inherited_name:
  "anthropicModels example_api ''toString'' = None \<and>
   getModel example_api (example_options\<lparr>apiModelId := Some ''toString''\<rparr>)
     = \<lparr>model_id = ''toString'', info = PrototypeMember ''toString''\<rparr> \<and>
   model_id (getModel example_api (example_options\<lparr>apiModelId := Some ''toString''\<rparr>))
     \<noteq> anthropicDefaultModelId example_api"
  by (simp add: getModel_def example_api_def example_options_def js_in_def js_get_def
      object_prototype_keys_def)

subsection \<open>C10: cache counts of zero\<close>

lemma message_start_zero_write:
  "on_chunk s (MessageStart (m\<lparr>cache_creation_input_tokens := Some 0\<rparr>))
     = on_chunk s (MessageStart (m\<lparr>cache_creation_input_tokens := None\<rparr>))"
  by (simp add: or_undefined_def)

lemma message_start_zero_read:
  "on_chunk s (MessageStart (m\<lparr>cache_read_input_tokens := Some 0\<rparr>))
     = on_chunk s (MessageStart (m\<lparr>cache_read_input_tokens := None\<rparr>))"
  by (simp add: or_undefined_def)

lemma message_start_zero_write_dup:
  "on_chunk_dup s (MessageStart (m\<lparr>cache_creation_input_tokens := Some 0\<rparr>))
     = on_chunk_dup s (MessageStart (m\<lparr>cache_creation_input_tokens := None\<rparr>))"
  by (simp add: or_undefined_def)

lemma message_start_zero_read_dup:
  "on_chunk_dup s (MessageStart (m\<lparr>cache_read_input_tokens := Some 0\<rparr>))
     = on_chunk_dup s (MessageStart (m\<lparr>cache_read_input_tokens := None\<rparr>))"
  by (simp add: or_undefined_def)

text \<open>
  C10. No usage event of either Anthropic variant carries a cache count of 0, and a
  \<^verbatim>\<open>message_start\<close> that reports a cache count of 0 yields the same events as one that
  reports none: after it the count is absent in the usage state, and absent in the usage
  event the duplicate variant yields at once.
\<close>

theorem zero_cache_counts_absent:
  "(UsageEvent u \<in> set (decode cs) \<or> UsageEvent u \<in> set (decode_dup cs) \<longrightarrow>
      cacheWriteTokens u \<noteq> Some 0 \<and> cacheReadTokens u \<noteq> Some 0) \<and>
   decode (pre @ MessageStart (m\<lparr>cache_creation_input_tokens := Some 0\<rparr>) # post)
     = decode (pre @ MessageStart (m\<lparr>cache_creation_input_tokens := None\<rparr>) # post) \<and>
   decode (pre @ MessageStart (m\<lparr>cache_read_input_tokens := Some 0\<rparr>) # post)
     = decode (pre @ MessageStart (m\<lparr>cache_read_input_tokens := None\<rparr>) # post) \<and>
   decode_dup (pre @ MessageStart (m\<lparr>cache_creation_input_tokens := Some 0\<rparr>) # post)
     = decode_dup (pre @ MessageStart (m\<lparr>cache_creation_input_tokens := None\<rparr>) # post) \<and>
   decode_dup (pre @ MessageStart (m\<lparr>cache_read_input_tokens := Some 0\<rparr>) # post)
     = decode_dup (pre @ MessageStart (m\<lparr>cache_read_input_tokens := None\<rparr>) # post) \<and>
   (cache_creation_input_tokens m = None \<or> cache_creation_input_tokens m = Some 0 \<longrightarrow>
      cacheWriteTokens (usage (fst (on_chunk s (MessageStart m)))) = None \<and>
      cacheWriteTokens (usageData (fst (on_chunk_dup s' (MessageStart m)))) = None \<and>
      snd (on_chunk_dup s' (MessageStart m))
        = [UsageEvent ((usageData (fst (on_chunk_dup s' (MessageStart m))))\<lparr>cacheWriteTokens := None\<rparr>)]) \<and>
   (cache_read_input_tokens m = None \<or> cache_read_input_tokens m = Some 0 \<longrightarrow>
      cacheReadTokens (usage (fst (on_chunk s (MessageStart m)))) = None \<and>
      cacheReadTokens (usageData (fst (on_chunk_dup s' (MessageStart m)))) = None \<and>
      snd (on_chunk_dup s' (MessageStart m))
        = [UsageEvent ((usageData (fst (on_chunk_dup s' (MessageStart m))))\<lparr>cacheReadTokens := None\<rparr>)])"
proof (intro conjI impI)
  assume "UsageEvent u \<in> set (decode cs) \<or> UsageEvent u \<in> set (decode_dup cs)"
  then have "cacheWriteTokens u \<noteq> Some 0 \<and> cacheReadTokens u \<noteq> Some 0"
    using decode_cache [of u cs] decode_loop_dup_cache [of u initial_state_dup cs]
    by (auto simp: decode_dup_def)
  then show "cacheWriteTokens u \<noteq> Some 0" "cacheReadTokens u \<noteq> Some 0" by simp_all
next
  show "decode (pre @ MessageStart (m\<lparr>cache_creation_input_tokens := Some 0\<rparr>) # post)
     = decode (pre @ MessageStart (m\<lparr>cache_creation_input_tokens := None\<rparr>) # post)"
    unfolding decode_def using decode_loop_swap [OF message_start_zero_write] by simp
next
  show "decode (pre @ MessageStart (m\<lparr>cache_read_input_tokens := Some 0\<rparr>) # post)
     = decode (pre @ MessageStart (m\<lparr>cache_read_input_tokens := None\<rparr>) # post)"
    unfolding decode_def using decode_loop_swap [OF message_start_zero_read] by simp
next
  show "decode_dup (pre @ MessageStart (m\<lparr>cache_creation_input_tokens := Some 0\<rparr>) # post)
     = decode_dup (pre @ MessageStart (m\<lparr>cache_creation_input_tokens := None\<rparr>) # post)"
    unfolding decode_dup_def using decode_loop_dup_swap [OF message_start_zero_write_dup] by simp
next
  show "decode_dup (pre @ MessageStart (m\<lparr>cache_read_input_tokens := Some 0\<rparr>) # post)
     = decode_dup (pre @ MessageStart (m\<lparr>cache_read_input_tokens := None\<rparr>) # post)"
    unfolding decode_dup_def using decode_loop_dup_swap [OF message_start_zero_read_dup] by simp
next
  assume a: "cache_creation_input_tokens m = None \<or> cache_creation_input_tokens m = Some 0"
  then have w: "or_undefined (cache_creation_input_tokens m) = None"
    by (auto simp: or_undefined_def)
  show "cacheWriteTokens (usage (fst (on_chunk s (MessageStart m)))) = None"
    by (simp add: w)
  show "cacheWriteTokens (usageData (fst (on_chunk_dup s' (MessageStart m)))) = None"
    by (simp add: w Let_def)
  show "snd (on_chunk_dup s' (MessageStart m))
        = [UsageEvent ((usageData (fst (on_chunk_dup s' (MessageStart m))))\<lparr>cacheWriteTokens := None\<rparr>)]"
    by (simp add: w Let_def)
next
  assume a: "cache_read_input_tokens m = None \<or> cache_read_input_tokens m = Some 0"
  then have w: "or_undefined (cache_read_input_tokens m) = None"
    by (auto simp: or_undefined_def)
  show "cacheReadTokens (usage (fst (on_chunk s (MessageStart m)))) = None"
    by (simp add: w)
  show "cacheReadTokens (usageData (fst (on_chunk_dup s' (MessageStart m)))) = None"
    by (simp add: w Let_def)
  show "snd (on_chunk_dup s' (MessageStart m))
        = [UsageEvent ((usageData (fst (on_chunk_dup s' (MessageStart m))))\<lparr>cacheReadTokens := None\<rparr>)]"
    by (simp add: w Let_def)
qed

theorem zero_cache_counts_absent_witness:
  "cache_creation_input_tokens ((start_usage 5 1)\<lparr>cache_creation_input_tokens := Some 0\<rparr>) = Some 0 \<and>
   cache_read_input_tokens ((start_usage 5 1)\<lparr>cache_creation_input_tokens := Some 0\<rparr>) = None \<and>
   decode [MessageStart ((start_usage 5 1)\<lparr>cache_creation_input_tokens := Some 0\<rparr>)]
     = [UsageEvent \<lparr>inputTokens = 5, outputTokens = 1,
                    cacheWriteTokens = None, cacheReadTokens = None\<rparr>] \<and>
   decode_dup [MessageStart ((start_usage 5 1)\<lparr>cache_creation_input_tokens := Some 0\<rparr>)]
     = [UsageEvent \<lparr>inputTokens = 5, outputTokens = 1,
                    cacheWriteTokens = None, cacheReadTokens = None\<rparr>] \<and>
   UsageEvent \<lparr>inputTokens = 5, outputTokens = 1, cacheWriteTokens = None, cacheReadTokens = None\<rparr>
     \<in> set (decode [MessageStart ((start_usage 5 1)\<lparr>cache_creation_input_tokens := Some 0\<rparr>)]) \<and>
   cacheWriteTokens (usage (fst (on_chunk initial_state
       (MessageStart ((start_usage 5 1)\<lparr>cache_creation_input_tokens := Some 0\<rparr>))))) = None \<and>
   cacheReadTokens (usageData (fst (on_chunk_dup initial_state_dup
       (MessageStart ((start_usage 5 1)\<lparr>cache_creation_input_tokens := Some 0\<rparr>))))) = None"
proof -
  let ?m = "(start_usage 5 1)\<lparr>cache_creation_input_tokens := Some 0\<rparr>"
  let ?u = "\<lparr>inputTokens = 5, outputTokens = 1, cacheWriteTokens = None, cacheReadTokens = None\<rparr>"
  note inst = zero_cache_counts_absent [where m = ?m and s = initial_state
      and s' = initial_state_dup and cs = "[MessageStart ?m]" and u = ?u and pre = "[]" and post = "[]"]
  have h1: "cache_creation_input_tokens ?m = Some 0" by simp
  have h2: "cache_read_input_tokens ?m = None" by (simp add: start_usage_def)
  have d: "decode [MessageStart ?m] = [UsageEvent ?u]"
    by (simp add: decode_def initial_state_def final_usage_event_def start_usage_def
        or_zero_def or_undefined_def)
  have d': "decode_dup [MessageStart ?m] = [UsageEvent ?u]"
    by (simp add: decode_dup_def initial_state_dup_def start_usage_def or_zero_def
        or_undefined_def Let_def)
  have h3: "UsageEvent ?u \<in> set (decode [MessageStart ?m])" unfolding d by simp
  from inst h1 have c1: "cacheWriteTokens (usage (fst (on_chunk initial_state (MessageStart ?m)))) = None"
    by blast
  from inst h2 have c2: "cacheReadTokens (usageData (fst (on_chunk_dup initial_state_dup (MessageStart ?m)))) = None"
    by blast
  show ?thesis using h1 h2 d d' h3 c1 c2 by blast
qed

end
